theory Spec2Isabelle
  imports Main "HOL-Library.Sublist"
begin

section \<open>Python values used by the four chat scripts\<close>

text \<open>
  The repository holds four scripts (\<^verbatim>\<open>gtmRagChat.py\<close>, \<^verbatim>\<open>spanishChat.py\<close>,
  \<^verbatim>\<open>taskChat.py\<close>, \<^verbatim>\<open>therapyChat.py\<close>), each with a class \<^verbatim>\<open>ChatSystem\<close>.
  Python strings are modelled as \<open>string\<close> (a list of 8-bit characters), so the model
  is exact for ASCII text; a character outside ASCII is an ordinary character that is
  neither a letter nor white space. Calls that leave the process (the completion
  endpoint \<^verbatim>\<open>ollama.chat\<close>, the vector store, the clock, the file system) are
  parameters of the operations; an exception they raise is a value of type \<open>error\<close>.
\<close>

datatype error = Exception string

text \<open>\<^verbatim>\<open>str.lower()\<close>: the 26 ASCII capitals are replaced, every other character stays.\<close>

definition char_lower :: "char \<Rightarrow> char" where
  "char_lower c =
     (case map_of (zip ''ABCDEFGHIJKLMNOPQRSTUVWXYZ'' ''abcdefghijklmnopqrstuvwxyz'') c of
        Some l \<Rightarrow> l
      | None \<Rightarrow> c)"

definition py_lower :: "string \<Rightarrow> string" where
  "py_lower s = map char_lower s"

text \<open>\<^verbatim>\<open>s.startswith(p)\<close> and \<^verbatim>\<open>s.endswith(p)\<close>.\<close>

definition startswith :: "string \<Rightarrow> string \<Rightarrow> bool" where
  "startswith s p = (take (length p) s = p)"

definition endswith :: "string \<Rightarrow> string \<Rightarrow> bool" where
  "endswith s p = (length p \<le> length s \<and> drop (length s - length p) s = p)"

text \<open>
  \<^verbatim>\<open>s.strip(chars)\<close> removes the leading and trailing characters that are in
  \<open>chars\<close>; \<^verbatim>\<open>s.strip()\<close> does so for white space, which in ASCII is the
  characters 9 to 13, 28 to 31 and the blank.
\<close>

definition strip_chars :: "char list \<Rightarrow> string \<Rightarrow> string" where
  "strip_chars cs s =
     rev (dropWhile (\<lambda>c. c \<in> set cs) (rev (dropWhile (\<lambda>c. c \<in> set cs) s)))"

definition whitespace :: "char list" where
  "whitespace =
     [CHR 0x09, CHR 0x0A, CHR 0x0B, CHR 0x0C, CHR 0x0D,
      CHR 0x1C, CHR 0x1D, CHR 0x1E, CHR 0x1F, CHR '' '']"

definition strip :: "string \<Rightarrow> string" where
  "strip s = strip_chars whitespace s"

text \<open>\<^verbatim>\<open>s.split(sep)\<close> for a separator of one character: never the empty list.\<close>

fun split :: "char \<Rightarrow> string \<Rightarrow> string list" where
  "split sep [] = [[]]"
| "split sep (c # cs) =
     (if c = sep then [] # split sep cs
      else (case split sep cs of
              w # ws \<Rightarrow> (c # w) # ws
            | [] \<Rightarrow> [[c]]))"

text \<open>\<^verbatim>\<open>sub in s\<close> on strings: \<open>sub\<close> occurs in \<open>s\<close> as a contiguous run.\<close>

fun contains :: "string \<Rightarrow> string \<Rightarrow> bool" where
  "contains [] sub = (sub = [])"
| "contains (c # cs) sub = (startswith (c # cs) sub \<or> contains cs sub)"

text \<open>The slice \<^verbatim>\<open>xs[-n:]\<close> for \<open>n > 0\<close>: the last \<open>n\<close> elements, or all of a shorter list.\<close>

definition last_n :: "nat \<Rightarrow> 'a list \<Rightarrow> 'a list" where
  "last_n n xs = drop (length xs - n) xs"

text \<open>\<^verbatim>\<open>os.path.basename\<close> (POSIX): what follows the last slash.\<close>

definition basename :: "string \<Rightarrow> string" where
  "basename p = rev (takeWhile (\<lambda>c. c \<noteq> CHR ''/'') (rev p))"

subsection \<open>Messages\<close>

text \<open>A message is the dictionary \<^verbatim>\<open>{'role': role, 'content': message}\<close>.\<close>

record message =
  role :: string
  content :: string

definition create_message :: "string \<Rightarrow> string \<Rightarrow> message" where
  "create_message msg r = \<lparr>role = r, content = msg\<rparr>"

text \<open>
  Every \<^verbatim>\<open>ChatSystem\<close> has the attribute \<^verbatim>\<open>conversation_history\<close>; the
  other attributes extend this record, one extension per script.
\<close>

record chat_system =
  conversation_history :: "message list"

section \<open>gtmRagChat.py\<close>

text \<open>
  A search result is a document with its \<^verbatim>\<open>metadata\<close> dictionary and its
  \<^verbatim>\<open>page_content\<close>. The loop of \<^verbatim>\<open>search_documents\<close> runs over the results
  with the two accumulators \<^verbatim>\<open>context\<close> and \<^verbatim>\<open>sources\<close>.
\<close>

record document =
  metadata :: "(string \<times> string) list"
  page_content :: string

definition doc_source :: "document \<Rightarrow> string" where
  "doc_source doc =
     basename (case map_of (metadata doc) ''source'' of None \<Rightarrow> '''' | Some s \<Rightarrow> s)"

definition context_entry :: "document \<Rightarrow> string" where
  "context_entry doc =
     ''\<newline>From '' @ doc_source doc @ '':\<newline>'' @ page_content doc @ ''\<newline>''"

fun search_loop :: "document list \<Rightarrow> string \<times> string list \<Rightarrow> string \<times> string list" where
  "search_loop [] acc = acc"
| "search_loop (doc # rest) (ctx, sources) =
     (let source = doc_source doc;
          sources' = (if source \<notin> set sources then sources @ [source] else sources)
      in search_loop rest (ctx @ context_entry doc, sources'))"

text \<open>
  \<^verbatim>\<open>self.vectordb.similarity_search(query, k=k)\<close> is the parameter \<open>similarity_search\<close>;
  \<open>k\<close> defaults to 9 at the only call.
\<close>

definition search_documents ::
  "(string \<Rightarrow> nat \<Rightarrow> error + document list) \<Rightarrow> string \<Rightarrow> nat \<Rightarrow> error + string \<times> string list"
where
  "search_documents similarity_search query k =
     (case similarity_search query k of
        Inl e \<Rightarrow> Inl e
      | Inr results \<Rightarrow> Inr (search_loop results ('''', [])))"

text \<open>
  The order in which \<^verbatim>\<open>sources\<close> is filled: every element once, at the place
  of its first occurrence.
\<close>

fun first_seen :: "'a list \<Rightarrow> 'a list" where
  "first_seen [] = []"
| "first_seen (x # xs) = x # first_seen (filter (\<lambda>y. y \<noteq> x) xs)"

definition example_results :: "document list" where
  "example_results =
     [\<lparr>metadata = [(''source'', ''memory/gtm/articles/A.pdf''), (''page'', ''0'')],
       page_content = ''pricing strategy''\<rparr>,
      \<lparr>metadata = [(''source'', ''memory/gtm/articles/B.pdf'')],
       page_content = ''channels''\<rparr>,
      \<lparr>metadata = [(''page'', ''3''), (''source'', ''memory/gtm/articles/A.pdf'')],
       page_content = ''discounts''\<rparr>]"

subsection \<open>The world outside the process\<close>

text \<open>
  One record holds what a call of \<^verbatim>\<open>process_query\<close> reads from outside:
  \<^item> \<open>chat\<close>: \<^verbatim>\<open>ollama.chat(model=..., messages=messages)['message']['content']\<close>,
    the reply text or the exception the call raises;
  \<^item> \<open>vectordb\<close>: \<^verbatim>\<open>self.vectordb.similarity_search\<close> (GTM script only);
  \<^item> \<open>str_of_list\<close>: how an f-string prints a list of strings (GTM script only);
  \<^item> \<open>today\<close> and \<open>timestamp\<close>: \<^verbatim>\<open>datetime.now()\<close> printed with
    \<^verbatim>\<open>"%Y-%m-%d"\<close> and with \<^verbatim>\<open>"%Y%m%d_%H%M%S"\<close>;
  \<^item> \<open>write_ok\<close>: whether opening and writing a file succeeds;
  \<^item> \<open>linesep\<close>: \<^verbatim>\<open>os.linesep\<close>, the line separator of the platform.
  A different record may be given at every call.
\<close>

record environment =
  chat :: "message list \<Rightarrow> error + string"
  vectordb :: "string \<Rightarrow> nat \<Rightarrow> error + document list"
  str_of_list :: "string list \<Rightarrow> string"
  today :: string
  timestamp :: string
  write_ok :: bool
  linesep :: string

text \<open>A text between single quotes, as the f-strings \<^verbatim>\<open>'{task_name}'\<close> print it.\<close>

definition quoted :: "string \<Rightarrow> string" where
  "quoted s = CHR 0x27 # s @ [CHR 0x27]"

text \<open>\<^verbatim>\<open>sep.join(parts)\<close>.\<close>

fun join :: "string \<Rightarrow> string list \<Rightarrow> string" where
  "join sep [] = []"
| "join sep [x] = x"
| "join sep (x # y # ys) = x @ sep @ join sep (y # ys)"

subsection \<open>\<^verbatim>\<open>process_query\<close> of gtmRagChat.py\<close>

definition gtm_instructions :: string where
  "gtm_instructions =
     ''You are a helpful GTM (Go-to-Market) strategy assistant. Use the provided context to answer questions accurately. ''
     @ ''If you're not sure about something, admit it rather than making things up. ''
     @ ''Keep responses concise and focused on GTM strategy. ''
     @ ''Always end your response with a list of sources used, formatted as ''
     @ quoted ''Sources: [file1.pdf, file2.pdf, ...]''"

text \<open>
  The list \<^verbatim>\<open>messages\<close> handed to the completion endpoint: the list literal of
  two system messages, extended by the slice \<^verbatim>\<open>self.conversation_history[-5:]\<close>,
  with the new user message appended.
\<close>

definition gtm_system_messages :: "environment \<Rightarrow> string \<Rightarrow> string list \<Rightarrow> message list" where
  "gtm_system_messages env ctx sources =
     [create_message gtm_instructions ''system'',
      create_message
        (''Here is the relevant context from the GTM documents:\<newline>\<newline>'' @ ctx @ ''\<newline>\<newline>''
         @ ''Remember to cite these sources at the end of your response: ''
         @ str_of_list env sources)
        ''system'']"

definition gtm_messages ::
  "environment \<Rightarrow> message list \<Rightarrow> string \<Rightarrow> string \<Rightarrow> string list \<Rightarrow> message list"
where
  "gtm_messages env history query ctx sources =
     gtm_system_messages env ctx sources
     @ last_n 5 history
     @ [create_message query ''user'']"

definition gtm_process_query ::
  "environment \<Rightarrow> chat_system \<Rightarrow> string \<Rightarrow> chat_system \<times> (error + string)"
where
  "gtm_process_query env self query =
     (if py_lower query = ''quit'' then (self, Inr ''Goodbye!'')
      else
        (case search_documents (vectordb env) query 9 of
           Inl e \<Rightarrow> (self, Inl e)
         | Inr (ctx, sources) \<Rightarrow>
             (case chat env (gtm_messages env (conversation_history self) query ctx sources) of
                Inl e \<Rightarrow> (self, Inl e)
              | Inr response \<Rightarrow>
                  (let response_content =
                         (if \<not> endswith (strip response) '']''
                          then response @ ''\<newline>\<newline>Sources: '' @ str_of_list env sources
                          else response)
                   in (self\<lparr>conversation_history :=
                              conversation_history self
                              @ [create_message query ''user'',
                                 create_message response_content ''assistant'']\<rparr>,
                       Inr response_content)))))"

section \<open>spanishChat.py\<close>

text \<open>
  The list literal that builds \<^verbatim>\<open>messages\<close> in this script lacks the comma between
  its two elements, so the file does not parse as it stands. The model reads the literal
  with the comma.

  The directory \<^verbatim>\<open>CHATS_DIR\<close> is kept with the state, as the list of its files in
  the order \<^verbatim>\<open>os.listdir\<close> gives them, each with its name and the characters
  stored in it, or the exception that reading it raises.

  Both scripts open their files in text mode with the default \<^verbatim>\<open>newline=None\<close>:
  writing replaces every line feed by \<^verbatim>\<open>os.linesep\<close>, and \<^verbatim>\<open>file.read()\<close>
  gives a line feed for every carriage return followed by a line feed and for every
  other carriage return.
\<close>

definition write_newlines :: "string \<Rightarrow> string \<Rightarrow> string" where
  "write_newlines sep text = concat (map (\<lambda>c. if c = CHR 0x0A then sep else [c]) text)"

fun universal_newlines :: "string \<Rightarrow> string" where
  "universal_newlines [] = []"
| "universal_newlines [c] = [if c = CHR 0x0D then CHR 0x0A else c]"
| "universal_newlines (c # d # ds) =
     (if c = CHR 0x0D \<and> d = CHR 0x0A then CHR 0x0A # universal_newlines ds
      else (if c = CHR 0x0D then CHR 0x0A else c) # universal_newlines (d # ds))"

type_synonym directory = "(string \<times> (error + string)) list"

record spanish_chat_system = chat_system +
  past_chats_context :: string
  chats_dir :: directory

fun context_parts :: "directory \<Rightarrow> string list" where
  "context_parts [] = []"
| "context_parts ((filename, file) # rest) =
     (if endswith filename ''.txt'' then
        (case file of
           Inr stored \<Rightarrow>
             (''\<newline>Chat History '' @ filename @ '':\<newline>'' @ universal_newlines stored
              @ ''\<newline>---'')
             # context_parts rest
         | Inl e \<Rightarrow> context_parts rest)
      else context_parts rest)"

definition load_past_chats :: "'a spanish_chat_system_scheme \<Rightarrow> 'a spanish_chat_system_scheme" where
  "load_past_chats self =
     self\<lparr>past_chats_context := join ''\<newline>'' (context_parts (chats_dir self))\<rparr>"

definition spanish_init :: "directory \<Rightarrow> spanish_chat_system" where
  "spanish_init dir =
     load_past_chats \<lparr>conversation_history = [], past_chats_context = '''', chats_dir = dir\<rparr>"

text \<open>
  \<^verbatim>\<open>open(filepath, 'w')\<close> replaces a file of the same name and creates it otherwise;
  \<open>stored\<close> is the characters that reach the file.
\<close>

definition write_file :: "string \<Rightarrow> string \<Rightarrow> directory \<Rightarrow> directory" where
  "write_file filename stored dir =
     (if filename \<in> fst ` set dir
      then map (\<lambda>(n, c). if n = filename then (n, Inr stored) else (n, c)) dir
      else dir @ [(filename, Inr stored)])"

definition transcript_line :: "message \<Rightarrow> string" where
  "transcript_line m =
     (if role m = ''user'' then ''User'' else ''Assistant'') @ '': '' @ content m @ ''\<newline>''"

definition chat_content :: "message list \<Rightarrow> string list" where
  "chat_content history = map transcript_line history"

definition save_current_chat ::
  "environment \<Rightarrow> 'a spanish_chat_system_scheme \<Rightarrow> 'a spanish_chat_system_scheme \<times> bool"
where
  "save_current_chat env self =
     (if write_ok env
      then (self\<lparr>chats_dir :=
                   write_file (''chat_'' @ timestamp env @ ''.txt'')
                     (write_newlines (linesep env)
                        (concat (chat_content (conversation_history self))))
                     (chats_dir self)\<rparr>,
            True)
      else (self, False))"

definition spanish_instructions :: string where
  "spanish_instructions =
     ''You are a helpful Spanish (Mexican) tutor. In your responses, the first thing you do is translate the text from my message into Spanish.''
     @ ''Then you add your conversational response - in both English and Spanish.''
     @ ''So your responses should always contain (1) my message translated into Spanish, and then (2) your response, in both English and Spanish.''
     @ ''Your response should be no more than 180 characters.''"

definition spanish_system_messages :: "spanish_chat_system \<Rightarrow> message list" where
  "spanish_system_messages self =
     [create_message spanish_instructions ''system'',
      create_message
        (''Here are the most recent previous conversations for context:\<newline>''
         @ past_chats_context self)
        ''system'']"

definition spanish_messages :: "spanish_chat_system \<Rightarrow> string \<Rightarrow> message list" where
  "spanish_messages self query =
     spanish_system_messages self
     @ last_n 5 (conversation_history self)
     @ [create_message query ''user'']"

definition spanish_process_query ::
  "environment \<Rightarrow> spanish_chat_system \<Rightarrow> string \<Rightarrow> spanish_chat_system \<times> (error + string)"
where
  "spanish_process_query env self query =
     (if py_lower query = ''cmd quit'' then
        (case save_current_chat env self of
           (self', True) \<Rightarrow> (self', Inr ''Chat history saved. Goodbye!'')
         | (self', False) \<Rightarrow> (self', Inr ''Error saving chat history. Goodbye anyway!''))
      else
        (case chat env (spanish_messages self query) of
           Inl e \<Rightarrow> (self, Inl e)
         | Inr response_content \<Rightarrow>
             (self\<lparr>conversation_history :=
                     conversation_history self
                     @ [create_message query ''user'',
                        create_message response_content ''assistant'']\<rparr>,
              Inr response_content)))"

section \<open>therapyChat.py\<close>

text \<open>
  The state adds \<^verbatim>\<open>self.system_messages\<close>, \<open>None\<close> until
  \<^verbatim>\<open>init_system_messages\<close> has run. The attributes \<^verbatim>\<open>latest_chat_date\<close> and
  \<^verbatim>\<open>MAX_HISTORY\<close> are left out: the first is read only into the local
  \<^verbatim>\<open>days_since_last_chat\<close>, which nothing reads, the second is never read.
  \<^verbatim>\<open>save_current_chat\<close> is the same text as in spanishChat.py;
  \<^verbatim>\<open>past_chats_context\<close> is taken as \<^verbatim>\<open>load_past_chats\<close> left it.
\<close>

record therapy_chat_system = spanish_chat_system +
  system_messages :: "message list option"

definition message1 :: string where
  "message1 =
     ''You always maintain a keen awareness of the history of the conversation and the user's responses. You strive to be as productive as possible - you do not waste time in building your understanding of the user, or in planning and executing your therapy.''"

definition message2 :: string where
  "message2 =
     ''You are an intelligent therapist who's only goal is to improve the user's emotional wellbeing using evidence-based ''
     @ ''therapeutic techniques. Your goal is to identify concerns, develop strategies for coping with them, and promote ''
     @ ''long-lasting personal growth. During our sessions, you will employ various techniques such as cognitive behavioral therapy (CBT), ''
     @ ''dialectical behavior therapy (DBT), solution-focused brief therapy (SFBT), psychodynamic therapy, and mindfulness-based interventions. ''
     @ ''you will adapt these methods according to your unique needs and circumstances, while continuously monitoring the effectiveness of each technique in real-time. ''
     @ ''It is essential for our progress that we maintain a structured approach towards our sessions. This means sticking to predefined agendas and being honest with one another.''"

definition message3 :: "string \<Rightarrow> string" where
  "message3 past = ''Here are the previous chat sessions for context:\<newline>'' @ past"

definition init_system_messages ::
  "therapy_chat_system \<Rightarrow> therapy_chat_system \<times> message list"
where
  "init_system_messages self =
     (let msgs = [create_message message1 ''system'',
                  create_message message2 ''system'',
                  create_message (message3 (past_chats_context self)) ''system'']
      in (self\<lparr>system_messages := Some msgs\<rparr>, msgs))"

definition therapy_init :: "string \<Rightarrow> directory \<Rightarrow> therapy_chat_system" where
  "therapy_init past dir =
     fst (init_system_messages
            \<lparr>conversation_history = [], past_chats_context = past, chats_dir = dir,
             system_messages = None\<rparr>)"

text \<open>The loop of the \<^verbatim>\<open>delete task:\<close> branch, with its two accumulators.\<close>

fun delete_loop :: "message list \<Rightarrow> string \<Rightarrow> message list \<times> bool \<Rightarrow> message list \<times> bool" where
  "delete_loop [] name acc = acc"
| "delete_loop (m # ms) name (new_history, task_found) =
     (if \<not> contains (content m) name
      then delete_loop ms name (new_history @ [m], task_found)
      else delete_loop ms name (new_history, True))"

text \<open>
  In the chat branch \<^verbatim>\<open>messages = self.system_messages or self.init_system_messages()\<close>
  binds \<^verbatim>\<open>messages\<close> to the list object that \<^verbatim>\<open>self.system_messages\<close> refers to
  (the cached call returns that same object), and \<^verbatim>\<open>messages.extend(...)\<close> changes
  that object in place. The model therefore writes the extended list back to
  \<open>system_messages\<close>. The user message is appended to the history before the
  completion endpoint is called, so it stays there when the call raises.
\<close>

definition therapy_process_query ::
  "environment \<Rightarrow> therapy_chat_system \<Rightarrow> string \<Rightarrow> therapy_chat_system \<times> (error + string)"
where
  "therapy_process_query env self query =
     (if startswith (py_lower query) ''delete task:'' then
        (let name = strip (drop (length ''delete task:'') query);
             (new_history, task_found) = delete_loop (conversation_history self) name ([], False)
         in if task_found
            then (self\<lparr>conversation_history := new_history\<rparr>,
                  Inr (''Task '' @ quoted name @ '' has been deleted.''))
            else (self, Inr (''Task '' @ quoted name @ '' not found.'')))
      else if py_lower query = ''cmd quit'' then
        (case save_current_chat env self of
           (self', True) \<Rightarrow> (self', Inr ''Chat history saved. Goodbye!'')
         | (self', False) \<Rightarrow> (self', Inr ''Error saving chat history. Goodbye anyway!''))
      else
        (let (self1, messages) =
               (case system_messages self of
                  Some ms \<Rightarrow> if ms \<noteq> [] then (self, ms) else init_system_messages self
                | None \<Rightarrow> init_system_messages self);
             history1 = conversation_history self1 @ [create_message query ''user''];
             messages' = messages @ last_n 25 history1;
             self2 = self1\<lparr>conversation_history := history1,
                           system_messages := Some messages'\<rparr>
         in (case chat env messages' of
               Inl e \<Rightarrow> (self2, Inl e)
             | Inr response_content \<Rightarrow>
                 (self2\<lparr>conversation_history :=
                          history1 @ [create_message response_content ''assistant'']\<rparr>,
                  Inr response_content))))"

section \<open>taskChat.py\<close>

text \<open>
  A task record and the content of \<^verbatim>\<open>tasks.txt\<close>. \<open>tasks_txt\<close> is what
  \<^verbatim>\<open>self.texts['tasks.txt']\<close> and the file hold, as the value the JSON text
  stands for: \<open>None\<close> when the text is no JSON or the empty object (both make
  \<^verbatim>\<open>get_tasks\<close> return a value that counts as false). \<open>tasks_data\<close> is the cache
  \<^verbatim>\<open>self.tasks_data\<close>, \<open>None\<close> until the first successful \<^verbatim>\<open>get_tasks\<close>.
\<close>

record task =
  task_name :: string
  project :: string
  create_date :: string
  due_date :: string
  complete_date :: "string option"
  description :: string
  relevant_links :: "string list"

record tasks =
  open_tasks :: "task list"
  completed_tasks :: "task list"

record task_chat_system = chat_system +
  tasks_txt :: "tasks option"
  tasks_data :: "tasks option"

definition initial_tasks :: tasks where
  "initial_tasks = \<lparr>open_tasks = [], completed_tasks = []\<rparr>"

text \<open>
  \<^verbatim>\<open>__init__\<close>: \<open>file\<close> is \<open>None\<close> when \<^verbatim>\<open>tasks.txt\<close> does not exist (it is
  then created with two empty lists), and \<open>Some t\<close> when it exists and reads as \<open>t\<close>.
\<close>

definition task_init :: "tasks option option \<Rightarrow> task_chat_system" where
  "task_init file =
     \<lparr>conversation_history = [],
      tasks_txt = (case file of None \<Rightarrow> Some initial_tasks | Some t \<Rightarrow> t),
      tasks_data = None\<rparr>"

definition get_tasks :: "task_chat_system \<Rightarrow> task_chat_system \<times> tasks option" where
  "get_tasks self =
     (case tasks_data self of
        Some d \<Rightarrow> (self, Some d)
      | None \<Rightarrow>
          (case tasks_txt self of
             None \<Rightarrow> (self, None)
           | Some d \<Rightarrow> (self\<lparr>tasks_data := Some d\<rparr>, Some d)))"

definition save_tasks :: "environment \<Rightarrow> task_chat_system \<Rightarrow> tasks \<Rightarrow> task_chat_system \<times> bool" where
  "save_tasks env self d =
     (if write_ok env
      then (self\<lparr>tasks_txt := Some d, tasks_data := Some d\<rparr>, True)
      else (self, False))"

text \<open>
  The three operations change the dictionary that \<^verbatim>\<open>get_tasks\<close> returned, which is
  the cached object itself: the cache holds the new lists whether or not
  \<^verbatim>\<open>save_tasks\<close> succeeds afterwards. The parameter \<^verbatim>\<open>task_name\<close> of the source
  is called \<open>name\<close> here.
\<close>

definition add_task ::
  "environment \<Rightarrow> task_chat_system \<Rightarrow> string \<Rightarrow> string \<Rightarrow> string \<Rightarrow> string \<Rightarrow> string list
     \<Rightarrow> task_chat_system \<times> bool"
where
  "add_task env self name proj descr due links =
     (case get_tasks self of
        (self0, None) \<Rightarrow> (self0, False)
      | (self0, Some d) \<Rightarrow>
          (let new_task =
                 \<lparr>task_name = name, project = proj, create_date = today env,
                  due_date = due, complete_date = None, description = descr,
                  relevant_links = links\<rparr>;
               d' = d\<lparr>open_tasks := open_tasks d @ [new_task]\<rparr>
           in save_tasks env (self0\<lparr>tasks_data := Some d'\<rparr>) d'))"

fun complete_loop :: "task list \<Rightarrow> string \<Rightarrow> task option \<times> task list \<Rightarrow> task option \<times> task list" where
  "complete_loop [] name acc = acc"
| "complete_loop (t # ts) name (task_to_complete, remaining_tasks) =
     (if strip (task_name t) = strip name
      then complete_loop ts name (Some t, remaining_tasks)
      else complete_loop ts name (task_to_complete, remaining_tasks @ [t]))"

definition complete_task :: "environment \<Rightarrow> task_chat_system \<Rightarrow> string \<Rightarrow> task_chat_system \<times> bool" where
  "complete_task env self name =
     (case get_tasks self of
        (self0, None) \<Rightarrow> (self0, False)
      | (self0, Some d) \<Rightarrow>
          (case complete_loop (open_tasks d) name (None, []) of
             (None, remaining_tasks) \<Rightarrow> (self0, False)
           | (Some t, remaining_tasks) \<Rightarrow>
               (let d' = d\<lparr>open_tasks := remaining_tasks,
                            completed_tasks :=
                              completed_tasks d @ [t\<lparr>complete_date := Some (today env)\<rparr>]\<rparr>
                in save_tasks env (self0\<lparr>tasks_data := Some d'\<rparr>) d')))"

definition delete_task :: "environment \<Rightarrow> task_chat_system \<Rightarrow> string \<Rightarrow> task_chat_system \<times> bool" where
  "delete_task env self name =
     (case get_tasks self of
        (self0, None) \<Rightarrow> (self0, False)
      | (self0, Some d) \<Rightarrow>
          (let keep = (\<lambda>t. py_lower (strip (task_name t)) \<noteq> py_lower (strip name));
               open' = filter keep (open_tasks d);
               completed' = filter keep (completed_tasks d);
               task_found = (length open' < length (open_tasks d)
                             \<or> length completed' < length (completed_tasks d));
               d' = d\<lparr>open_tasks := open', completed_tasks := completed'\<rparr>;
               self1 = self0\<lparr>tasks_data := Some d'\<rparr>
           in if \<not> task_found then (self1, False) else save_tasks env self1 d'))"

text \<open>The lines that the listing command prints for one open task.\<close>

definition task_listing :: "task \<Rightarrow> string" where
  "task_listing t =
     ''\<newline>- '' @ task_name t @ '' (Due: '' @ due_date t @ '')''
     @ ''\<newline>  Project: '' @ project t
     @ ''\<newline>  Description: '' @ description t"

definition listing_commands :: "string list" where
  "listing_commands =
     [''what are my open tasks?'', ''what are all my open tasks?'', ''show tasks'',
      ''show all tasks'', ''list tasks'', ''list open tasks'']"

definition task_system_messages :: "message list" where
  "task_system_messages = [create_message ''You are a helpful assistant.'' ''system'']"

definition task_messages :: "task_chat_system \<Rightarrow> string \<Rightarrow> message list" where
  "task_messages self query =
     task_system_messages
     @ last_n 5 (conversation_history self)
     @ [create_message query ''user'']"

definition task_process_query ::
  "environment \<Rightarrow> task_chat_system \<Rightarrow> string \<Rightarrow> task_chat_system \<times> (error + string)"
where
  "task_process_query env self query =
     (if startswith (py_lower query) ''delete task:'' then
        (let name = strip (drop (length ''delete task:'') query)
         in (case delete_task env self name of
               (self', True) \<Rightarrow>
                 (self', Inr (''Task '' @ quoted name @ '' has been deleted from tasks file.''))
             | (self', False) \<Rightarrow>
                 (self', Inr (''Error: Could not find task '' @ quoted name @ ''.''))))
      else if startswith (py_lower query) ''add task:'' then
        (let parts = split CHR ''|'' (drop 9 query)
         in if length parts < 2
            then (self, Inr ''Error: Please provide at least Task Name and Project Name. Format: add task: Task Name | Project Name'')
            else
              (let name = strip (parts ! 0);
                   proj = strip (parts ! 1);
                   descr = (if length parts > 2 then strip (parts ! 2)
                            else ''No description provided'');
                   due = (if length parts > 3 then strip (parts ! 3) else ''No due date'');
                   links = (if length parts > 4
                            then (let s = strip (parts ! 4)
                                  in map strip (split CHR '','' (drop 1 (take (length s - 1) s))))
                            else [])
               in (case add_task env self name proj descr due links of
                     (self', True) \<Rightarrow>
                       (self', Inr (''Task '' @ quoted name @ '' added to project ''
                                    @ quoted proj @ '' successfully!''))
                   | (self', False) \<Rightarrow>
                       (self', Inr ''Error adding task: Failed to save to file''))))
      else if startswith (py_lower query) ''complete task:'' then
        (let name = strip_chars '': '' (drop (length ''complete task:'') query)
         in (case complete_task env self name of
               (self', True) \<Rightarrow> (self', Inr (''Task '' @ quoted name @ '' marked as complete!''))
             | (self', False) \<Rightarrow> (self', Inr (''Error: Could not find task '' @ quoted name))))
      else if py_lower query \<in> set listing_commands then
        (case get_tasks self of
           (self0, Some d) \<Rightarrow>
             (if open_tasks d \<noteq> []
              then (self0, Inr (''Open Tasks:\<newline>'' @ concat (map task_listing (open_tasks d))))
              else (self0, Inr ''No open tasks found.''))
         | (self0, None) \<Rightarrow> (self0, Inr ''No open tasks found.''))
      else
        (case chat env (task_messages self query) of
           Inl e \<Rightarrow> (self, Inl e)
         | Inr response_content \<Rightarrow>
             (self\<lparr>conversation_history :=
                     conversation_history self
                     @ [create_message query ''user'',
                        create_message response_content ''assistant'']\<rparr>,
              Inr response_content)))"

section \<open>Sessions\<close>

text \<open>
  The command loop \<^verbatim>\<open>start_chat\<close> calls \<^verbatim>\<open>process_query\<close> once per input line on
  the same \<^verbatim>\<open>ChatSystem\<close> and goes on after an exception, which it prints. A session
  is the list of its calls, each with the environment it meets and its query; \<open>run\<close>
  gives the state after the last one.
\<close>

definition run ::
  "(environment \<Rightarrow> 's \<Rightarrow> string \<Rightarrow> 's \<times> (error + string)) \<Rightarrow> 's \<Rightarrow> (environment \<times> string) list \<Rightarrow> 's"
where
  "run process_query self calls = foldl (\<lambda>s (env, query). fst (process_query env s query)) self calls"

section \<open>Example values\<close>

definition example_env :: environment where
  "example_env =
     \<lparr>chat = (\<lambda>msgs. Inr ''ok''), vectordb = (\<lambda>q k. Inr []), str_of_list = (\<lambda>xs. ''[]''),
      today = ''2025-02-20'', timestamp = ''20250220_101500'', write_ok = True,
      linesep = ''\<newline>''\<rparr>"

definition example_task :: "string \<Rightarrow> string \<Rightarrow> task" where
  "example_task name proj =
     \<lparr>task_name = name, project = proj, create_date = ''2025-02-01'',
      due_date = ''No due date'', complete_date = None,
      description = ''No description provided'', relevant_links = []\<rparr>"

definition example_duplicates :: tasks where
  "example_duplicates =
     \<lparr>open_tasks = [example_task ''Report'' ''Acme'', example_task ''Plan'' ''Acme'',
                     example_task '' Report '' ''Bolt''],
      completed_tasks = []\<rparr>"

definition example_report_state :: task_chat_system where
  "example_report_state =
     \<lparr>conversation_history = [],
      tasks_txt = Some \<lparr>open_tasks = [example_task ''Report'' ''Acme''], completed_tasks = []\<rparr>,
      tasks_data = None\<rparr>"

text \<open>The two commands of the end-to-end scenario and the record the first one creates.\<close>

definition add_command :: string where
  "add_command = ''add task: Write report | Acme | Quarterly report | 2025-03-01''"

definition complete_command :: string where
  "complete_command = ''complete task: Write report''"

definition report_task :: "string \<Rightarrow> task" where
  "report_task created =
     \<lparr>task_name = ''Write report'', project = ''Acme'', create_date = created,
      due_date = ''2025-03-01'', complete_date = None, description = ''Quarterly report'',
      relevant_links = []\<rparr>"

definition failing_env :: environment where
  "failing_env = example_env\<lparr>chat := (\<lambda>msgs. Inl (Exception ''connection refused''))\<rparr>"

definition hello_session :: therapy_chat_system where
  "hello_session = run therapy_process_query (therapy_init '''' []) [(example_env, ''hello'')]"

definition probe_env :: "message list \<Rightarrow> environment" where
  "probe_env prompt =
     example_env\<lparr>chat := (\<lambda>msgs. if msgs = prompt then Inr ''same prompt''
                                  else Inl (Exception ''other prompt''))\<rparr>"

definition therapy_system_prompt :: "string \<Rightarrow> message list" where
  "therapy_system_prompt past =
     [create_message message1 ''system'', create_message message2 ''system'',
      create_message (message3 past) ''system'']"

text \<open>
  What makes a call a submit/reply cycle: the completion endpoint answers whatever it is
  sent, and the query is none of the script's commands.
\<close>

definition replies :: "environment \<Rightarrow> bool" where
  "replies env = (\<forall>msgs. \<exists>r. chat env msgs = Inr r)"

definition task_command :: "string \<Rightarrow> bool" where
  "task_command q =
     (startswith (py_lower q) ''delete task:'' \<or> startswith (py_lower q) ''add task:''
      \<or> startswith (py_lower q) ''complete task:'' \<or> py_lower q \<in> set listing_commands)"

definition example_calls :: "(environment \<times> string) list" where
  "example_calls = [(example_env, ''hola''), (example_env, ''gracias''), (example_env, ''adios'')]"

text \<open>
  Histories that a transcript can hold line by line, and two histories for the
  transcript format.
\<close>

definition transcript_ready :: "message list \<Rightarrow> bool" where
  "transcript_ready history =
     list_all (\<lambda>m. (role m = ''user'' \<or> role m = ''assistant'')
                   \<and> CHR 0x0A \<notin> set (content m) \<and> CHR 0x0D \<notin> set (content m)) history"

definition history_with_line_break :: "message list" where
  "history_with_line_break =
     [create_message ''a'' ''user'',
      create_message ''b\<newline>User: c\<newline>Assistant: d'' ''assistant'']"

definition history_of_four :: "message list" where
  "history_of_four =
     [create_message ''a'' ''user'', create_message ''b'' ''assistant'',
      create_message ''c'' ''user'', create_message ''d'' ''assistant'']"

text \<open>Prompts and a stored file for the examples.\<close>

definition gtm_reply :: string where
  "gtm_reply = ''ok\<newline>\<newline>Sources: []''"

definition gtm_window_prompt :: "message list" where
  "gtm_window_prompt =
     gtm_system_messages example_env '''' []
     @ [create_message gtm_reply ''assistant'',
        create_message ''gracias'' ''user'', create_message gtm_reply ''assistant'',
        create_message ''adios'' ''user'', create_message gtm_reply ''assistant'']
     @ [create_message ''next'' ''user'']"

definition task_window_prompt :: "message list" where
  "task_window_prompt =
     task_system_messages
     @ [create_message ''ok'' ''assistant'',
        create_message ''gracias'' ''user'', create_message ''ok'' ''assistant'',
        create_message ''adios'' ''user'', create_message ''ok'' ''assistant'']
     @ [create_message ''next'' ''user'']"

definition spanish_short_prompt :: "message list" where
  "spanish_short_prompt =
     spanish_system_messages (spanish_init [])
     @ [create_message ''hola'' ''user'', create_message ''ok'' ''assistant'']
     @ [create_message ''next'' ''user'']"

definition crlf_transcript :: string where
  "crlf_transcript =
     ''User: a'' @ [CHR 0x0D, CHR 0x0A] @ ''Assistant: b'' @ [CHR 0x0D, CHR 0x0A]"

section \<open>Properties of the retrieval step\<close>

lemma set_first_seen: "set (first_seen xs) = set xs"
  by (induction xs rule: first_seen.induct) auto

lemma distinct_first_seen: "distinct (first_seen xs)"
  by (induction xs rule: first_seen.induct) (auto simp: set_first_seen)

lemma search_loop_ctx:
  "fst (search_loop rs (c, s)) = c @ concat (map context_entry rs)"
  by (induction rs arbitrary: c s) (simp_all add: Let_def)

lemma search_loop_sources:
  "snd (search_loop rs (c, s)) =
     s @ first_seen (filter (\<lambda>x. x \<notin> set s) (map doc_source rs))"
proof (induction rs arbitrary: c s)
  case Nil
  then show ?case by simp
next
  case (Cons d rs)
  show ?case
  proof (cases "doc_source d \<in> set s")
    case True
    then show ?thesis by (simp add: Let_def Cons.IH)
  next
    case False
    have "filter (\<lambda>x. x \<notin> set (s @ [doc_source d])) (map doc_source rs)
        = filter (\<lambda>y. y \<noteq> doc_source d) (filter (\<lambda>x. x \<notin> set s) (map doc_source rs))"
      by (auto intro: filter_cong)
    then show ?thesis using False
      by (simp add: Let_def Cons.IH)
  qed
qed

lemma search_loop_eq:
  "search_loop rs ('''', []) = (concat (map context_entry rs), first_seen (map doc_source rs))"
  using search_loop_ctx[of rs "''''" "[]"] search_loop_sources[of rs "''''" "[]"]
  by (simp add: prod_eq_iff)

text \<open>
  Claim C5. When the similarity search returns \<open>results\<close>, \<^verbatim>\<open>search_documents\<close>
  returns (without an error) the context that concatenates, in result order, one entry
  per result (a line \<^verbatim>\<open>From <source>:\<close> followed by the chunk text), and the
  sources without repetition in the order of their first occurrence; with no result
  both are empty.
\<close>

theorem search_documents_context_and_sources:
  assumes "similarity_search query k = Inr results"
  shows "search_documents similarity_search query k =
           Inr (concat (map context_entry results), first_seen (map doc_source results))
         \<and> distinct (first_seen (map doc_source results))
         \<and> set (first_seen (map doc_source results)) = doc_source ` set results
         \<and> (results = [] \<longrightarrow> search_documents similarity_search query k = Inr ('''', []))"
  using assms
  by (simp add: search_documents_def search_loop_eq set_first_seen distinct_first_seen)

theorem search_documents_context_and_sources_witness:
  "search_documents (\<lambda>q k. Inr example_results) ''pricing'' 9 =
     Inr (''\<newline>From A.pdf:\<newline>pricing strategy\<newline>''
            @ ''\<newline>From B.pdf:\<newline>channels\<newline>''
            @ ''\<newline>From A.pdf:\<newline>discounts\<newline>'',
          [''A.pdf'', ''B.pdf''])
   \<and> search_documents (\<lambda>q k. Inr []) ''pricing'' 9 = Inr ('''', [])"
  using search_documents_context_and_sources
          [of "\<lambda>q k. Inr example_results" "''pricing''" 9 example_results]
        search_documents_context_and_sources
          [of "\<lambda>q k. Inr []" "''pricing''" 9 "[]"]
  by (simp add: example_results_def context_entry_def doc_source_def basename_def)

section \<open>Properties of the task list\<close>

lemmas str_defs =
  py_lower_def char_lower_def startswith_def strip_def strip_chars_def whitespace_def

lemma complete_loop_eq:
  "complete_loop ts name (found, rem) =
     ((case filter (\<lambda>t. strip (task_name t) = strip name) ts of
         [] \<Rightarrow> found
       | m # ms \<Rightarrow> Some (last (m # ms))),
      rem @ filter (\<lambda>t. strip (task_name t) \<noteq> strip name) ts)"
proof (induction ts arbitrary: found rem)
  case Nil
  then show ?case by simp
next
  case (Cons t ts)
  then show ?case by (simp split: list.splits)
qed

lemma complete_loop_snoc_match:
  assumes "strip (task_name x) = strip name"
  shows "complete_loop (ts @ [x]) name (None, []) =
           (Some x, filter (\<lambda>t. strip (task_name t) \<noteq> strip name) ts)"
  using assms by (cases "filter (\<lambda>t. strip (task_name t) = strip name) ts")
    (simp_all add: complete_loop_eq)

lemma length_filter_less_iff:
  "length (filter P xs) < length xs \<longleftrightarrow> (\<exists>x \<in> set xs. \<not> P x)"
proof (induction xs)
  case Nil
  then show ?case by simp
next
  case (Cons x xs)
  have "length (filter P xs) \<le> length xs" by simp
  with Cons show ?case by (auto simp: less_Suc_eq_le)
qed

lemma complete_task_result:
  assumes "get_tasks self = (self0, Some d)"
  shows "snd (complete_task env self name) =
           (write_ok env \<and> (\<exists>t \<in> set (open_tasks d). strip (task_name t) = strip name))"
proof (cases "filter (\<lambda>t. strip (task_name t) = strip name) (open_tasks d)")
  case Nil
  then have "\<not> (\<exists>t \<in> set (open_tasks d). strip (task_name t) = strip name)"
    by (simp add: filter_empty_conv)
  with Nil assms show ?thesis
    by (simp add: complete_task_def complete_loop_eq)
next
  case (Cons m ms)
  then have "m \<in> set (filter (\<lambda>t. strip (task_name t) = strip name) (open_tasks d))" by simp
  then have "\<exists>t \<in> set (open_tasks d). strip (task_name t) = strip name" by auto
  with Cons assms show ?thesis
    by (simp add: complete_task_def complete_loop_eq save_tasks_def Let_def)
qed

lemma delete_task_data:
  assumes "get_tasks self = (self0, Some d)"
  shows "tasks_data (fst (delete_task env self name)) =
           Some \<lparr>open_tasks =
                   filter (\<lambda>t. py_lower (strip (task_name t)) \<noteq> py_lower (strip name))
                     (open_tasks d),
                 completed_tasks =
                   filter (\<lambda>t. py_lower (strip (task_name t)) \<noteq> py_lower (strip name))
                     (completed_tasks d)\<rparr>"
  using assms by (simp add: delete_task_def save_tasks_def Let_def)

lemma delete_task_result:
  assumes "get_tasks self = (self0, Some d)"
  shows "snd (delete_task env self name) =
           (write_ok env \<and>
            (\<exists>t \<in> set (open_tasks d) \<union> set (completed_tasks d).
               py_lower (strip (task_name t)) = py_lower (strip name)))"
  using assms
  by (auto simp add: delete_task_def save_tasks_def Let_def length_filter_less_iff)

lemma add_command_parse:
  "\<not> startswith (py_lower add_command) ''delete task:''"
  "startswith (py_lower add_command) ''add task:''"
  "split CHR ''|'' (drop 9 add_command) =
     ['' Write report '', '' Acme '', '' Quarterly report '', '' 2025-03-01'']"
  by (simp_all add: add_command_def str_defs)

lemma add_command_fields:
  "strip '' Write report '' = ''Write report''"
  "strip '' Acme '' = ''Acme''"
  "strip '' Quarterly report '' = ''Quarterly report''"
  "strip '' 2025-03-01'' = ''2025-03-01''"
  "strip ''Write report'' = ''Write report''"
  by (simp_all add: str_defs)

lemma complete_command_parse:
  "\<not> startswith (py_lower complete_command) ''delete task:''"
  "\<not> startswith (py_lower complete_command) ''add task:''"
  "startswith (py_lower complete_command) ''complete task:''"
  "strip_chars '': '' (drop (length ''complete task:'') complete_command) = ''Write report''"
  by (simp_all add: complete_command_def str_defs)

lemma add_command_step:
  assumes "get_tasks self = (self0, Some d)" and "write_ok env"
  shows "task_process_query env self add_command =
           (self0\<lparr>tasks_txt := Some (d\<lparr>open_tasks := open_tasks d @ [report_task (today env)]\<rparr>),
                  tasks_data := Some (d\<lparr>open_tasks := open_tasks d @ [report_task (today env)]\<rparr>)\<rparr>,
            Inr (''Task '' @ quoted ''Write report'' @ '' added to project '' @ quoted ''Acme''
                 @ '' successfully!''))"
  using assms
  by (simp add: task_process_query_def add_command_parse add_command_fields add_task_def
      save_tasks_def Let_def report_task_def)

lemma complete_command_step:
  assumes "tasks_data self = Some (d\<lparr>open_tasks := ts @ [report_task created]\<rparr>)"
      and "write_ok env"
  shows "task_process_query env self complete_command =
           (self\<lparr>tasks_txt :=
                    Some (d\<lparr>open_tasks := filter (\<lambda>t. strip (task_name t) \<noteq> ''Write report'') ts,
                            completed_tasks :=
                              completed_tasks d
                              @ [(report_task created)\<lparr>complete_date := Some (today env)\<rparr>]\<rparr>),
                  tasks_data :=
                    Some (d\<lparr>open_tasks := filter (\<lambda>t. strip (task_name t) \<noteq> ''Write report'') ts,
                            completed_tasks :=
                              completed_tasks d
                              @ [(report_task created)\<lparr>complete_date := Some (today env)\<rparr>]\<rparr>)\<rparr>,
            Inr (''Task '' @ quoted ''Write report'' @ '' marked as complete!''))"
proof -
  have m: "strip (task_name (report_task created)) = strip ''Write report''"
    by (simp add: report_task_def)
  have g: "get_tasks self = (self, Some (d\<lparr>open_tasks := ts @ [report_task created]\<rparr>))"
    using assms(1) by (simp add: get_tasks_def)
  show ?thesis
    using assms(2)
    by (simp add: task_process_query_def complete_command_parse
        complete_command_parse(4)[simplified] complete_task_def g
        complete_loop_snoc_match[OF m] add_command_fields save_tasks_def Let_def)
qed

text \<open>
  Claim C8. From any state whose task list loads, and with both writes of the task file
  succeeding, the command \<^verbatim>\<open>add task: Write report | Acme | Quarterly report | 2025-03-01\<close>
  followed by \<^verbatim>\<open>complete task: Write report\<close> leaves the new record as the last
  element of \<^verbatim>\<open>completed_tasks\<close> with \<^verbatim>\<open>complete_date\<close> set to the date of the
  second command, and in \<^verbatim>\<open>open_tasks\<close> neither the record nor its completed form;
  cache and file agree, and both replies report success.
\<close>

theorem add_then_complete_moves_task:
  assumes "get_tasks self = (self0, Some d)"
      and "write_ok env1" and "write_ok env2"
      and "task_process_query env1 self add_command = (self1, reply1)"
      and "task_process_query env2 self1 complete_command = (self2, reply2)"
  shows "tasks_data self2 =
           Some \<lparr>open_tasks = filter (\<lambda>t. strip (task_name t) \<noteq> ''Write report'') (open_tasks d),
                 completed_tasks =
                   completed_tasks d
                   @ [(report_task (today env1))\<lparr>complete_date := Some (today env2)\<rparr>]\<rparr>
         \<and> tasks_txt self2 = tasks_data self2
         \<and> tasks_data self1 = Some (d\<lparr>open_tasks := open_tasks d @ [report_task (today env1)]\<rparr>)
         \<and> report_task (today env1)
              \<notin> set (filter (\<lambda>t. strip (task_name t) \<noteq> ''Write report'') (open_tasks d))
         \<and> (report_task (today env1))\<lparr>complete_date := Some (today env2)\<rparr>
              \<notin> set (filter (\<lambda>t. strip (task_name t) \<noteq> ''Write report'') (open_tasks d))
         \<and> reply1 = Inr (''Task '' @ quoted ''Write report'' @ '' added to project ''
                          @ quoted ''Acme'' @ '' successfully!'')
         \<and> reply2 = Inr (''Task '' @ quoted ''Write report'' @ '' marked as complete!'')"
proof -
  let ?d1 = "d\<lparr>open_tasks := open_tasks d @ [report_task (today env1)]\<rparr>"
  let ?d2 = "d\<lparr>open_tasks := filter (\<lambda>t. strip (task_name t) \<noteq> ''Write report'') (open_tasks d),
               completed_tasks :=
                 completed_tasks d
                 @ [(report_task (today env1))\<lparr>complete_date := Some (today env2)\<rparr>]\<rparr>"
  from add_command_step[OF assms(1,2)] assms(4)
  have s1: "self1 = self0\<lparr>tasks_txt := Some ?d1, tasks_data := Some ?d1\<rparr>"
    and r1: "reply1 = Inr (''Task '' @ quoted ''Write report'' @ '' added to project ''
                          @ quoted ''Acme'' @ '' successfully!'')"
    by simp_all
  have td: "tasks_data self1 = Some ?d1"
    by (simp add: s1)
  from complete_command_step[OF td assms(3)] assms(5)
  have s2: "self2 = self1\<lparr>tasks_txt := Some ?d2, tasks_data := Some ?d2\<rparr>"
    and r2: "reply2 = Inr (''Task '' @ quoted ''Write report'' @ '' marked as complete!'')"
    by simp_all
  have n: "strip (task_name (report_task (today env1))) = ''Write report''"
    by (simp add: report_task_def add_command_fields)
  show ?thesis
    using r1 r2 td n by (simp add: s2)
qed

theorem add_then_complete_moves_task_witness:
  "get_tasks (task_init None) = (task_init None\<lparr>tasks_data := Some initial_tasks\<rparr>, Some initial_tasks)
   \<and> write_ok example_env
   \<and> tasks_data
        (fst (task_process_query example_env
                (fst (task_process_query example_env (task_init None) add_command))
                complete_command))
      = Some \<lparr>open_tasks = [],
              completed_tasks =
                [\<lparr>task_name = ''Write report'', project = ''Acme'', create_date = ''2025-02-20'',
                  due_date = ''2025-03-01'', complete_date = Some ''2025-02-20'',
                  description = ''Quarterly report'', relevant_links = []\<rparr>]\<rparr>"
proof -
  have g: "get_tasks (task_init None)
           = (task_init None\<lparr>tasks_data := Some initial_tasks\<rparr>, Some initial_tasks)"
    by (simp add: get_tasks_def task_init_def)
  have w: "write_ok example_env" by (simp add: example_env_def)
  show ?thesis
    using g w add_then_complete_moves_task[OF g w w surjective_pairing surjective_pairing]
    by (simp add: initial_tasks_def report_task_def example_env_def)
qed

text \<open>
  Claim C9. When two or more open tasks have a stripped name equal to the stripped
  input, \<^verbatim>\<open>complete_task\<close> leaves in \<^verbatim>\<open>open_tasks\<close> exactly the tasks that do
  not match and appends to \<^verbatim>\<open>completed_tasks\<close> one record only, the last match
  with its \<^verbatim>\<open>complete_date\<close> set: the two lists together lose all matches but one.
\<close>

theorem complete_task_keeps_last_match:
  assumes "get_tasks self = (self0, Some d)"
      and "ms = filter (\<lambda>t. strip (task_name t) = strip name) (open_tasks d)"
      and "2 \<le> length ms"
  shows "tasks_data (fst (complete_task env self name)) =
           Some \<lparr>open_tasks = filter (\<lambda>t. strip (task_name t) \<noteq> strip name) (open_tasks d),
                 completed_tasks =
                   completed_tasks d @ [(last ms)\<lparr>complete_date := Some (today env)\<rparr>]\<rparr>
         \<and> snd (complete_task env self name) = write_ok env
         \<and> length (filter (\<lambda>t. strip (task_name t) \<noteq> strip name) (open_tasks d))
             + length ms = length (open_tasks d)
         \<and> length (filter (\<lambda>t. strip (task_name t) \<noteq> strip name) (open_tasks d))
             + length (completed_tasks d @ [(last ms)\<lparr>complete_date := Some (today env)\<rparr>])
             + (length ms - 1)
             = length (open_tasks d) + length (completed_tasks d)"
proof -
  from assms(3) obtain m ms' where "ms = m # ms'"
    by (cases ms) auto
  with assms(2)
  have ms: "filter (\<lambda>t. strip (task_name t) = strip name) (open_tasks d) = m # ms'"
    and l: "last ms = last (m # ms')"
    by simp_all
  have len: "length (filter (\<lambda>t. strip (task_name t) \<noteq> strip name) (open_tasks d))
             + length ms = length (open_tasks d)"
    using sum_length_filter_compl[of "\<lambda>t. strip (task_name t) = strip name" "open_tasks d"]
      assms(2)
    by simp
  have data: "tasks_data (fst (complete_task env self name)) =
           Some \<lparr>open_tasks = filter (\<lambda>t. strip (task_name t) \<noteq> strip name) (open_tasks d),
                 completed_tasks =
                   completed_tasks d @ [(last ms)\<lparr>complete_date := Some (today env)\<rparr>]\<rparr>"
    using assms(1) ms l
    by (simp add: complete_task_def complete_loop_eq save_tasks_def Let_def)
  have res: "snd (complete_task env self name) = write_ok env"
    using assms(1) ms
    by (simp add: complete_task_def complete_loop_eq save_tasks_def Let_def)
  from len assms(3) data res show ?thesis by simp
qed

theorem complete_task_keeps_last_match_witness:
  "2 \<le> length (filter (\<lambda>t. strip (task_name t) = strip ''Report'') (open_tasks example_duplicates))
   \<and> tasks_data (fst (complete_task example_env
                         \<lparr>conversation_history = [], tasks_txt = Some example_duplicates,
                          tasks_data = None\<rparr> ''Report''))
      = Some \<lparr>open_tasks = [example_task ''Plan'' ''Acme''],
              completed_tasks =
                [(example_task '' Report '' ''Bolt'')\<lparr>complete_date := Some ''2025-02-20''\<rparr>]\<rparr>"
proof -
  let ?self = "\<lparr>conversation_history = [], tasks_txt = Some example_duplicates,
                 tasks_data = None\<rparr>"
  have g: "get_tasks ?self = (?self\<lparr>tasks_data := Some example_duplicates\<rparr>, Some example_duplicates)"
    by (simp add: get_tasks_def)
  have f: "filter (\<lambda>t. strip (task_name t) = strip ''Report'') (open_tasks example_duplicates)
           = [example_task ''Report'' ''Acme'', example_task '' Report '' ''Bolt'']"
    by (simp add: example_duplicates_def example_task_def str_defs)
  have f': "filter (\<lambda>t. strip (task_name t) \<noteq> strip ''Report'') (open_tasks example_duplicates)
           = [example_task ''Plan'' ''Acme'']"
    by (simp add: example_duplicates_def example_task_def str_defs)
  have l: "2 \<le> length [example_task ''Report'' ''Acme'', example_task '' Report '' ''Bolt'']"
    by simp
  show ?thesis
    using complete_task_keeps_last_match[OF g f[symmetric] l, of example_env] f f'
    by (simp add: example_env_def example_duplicates_def)
qed

text \<open>
  Claim C10. \<^verbatim>\<open>delete_task\<close> compares the stripped names in lower case and drops
  every match from both lists; \<^verbatim>\<open>complete_task\<close> compares the stripped names as
  they are. Each returns true exactly when something matched and the file was written.
  For the one open task \<^verbatim>\<open>Report\<close> the input \<^verbatim>\<open>report\<close> succeeds for
  \<^verbatim>\<open>delete_task\<close> and fails for \<^verbatim>\<open>complete_task\<close>.
\<close>

theorem delete_ignores_case_complete_does_not:
  assumes "get_tasks self = (self0, Some d)"
  shows "tasks_data (fst (delete_task env self name)) =
           Some \<lparr>open_tasks =
                   filter (\<lambda>t. py_lower (strip (task_name t)) \<noteq> py_lower (strip name))
                     (open_tasks d),
                 completed_tasks =
                   filter (\<lambda>t. py_lower (strip (task_name t)) \<noteq> py_lower (strip name))
                     (completed_tasks d)\<rparr>
         \<and> snd (delete_task env self name) =
             (write_ok env \<and>
              (\<exists>t \<in> set (open_tasks d) \<union> set (completed_tasks d).
                 py_lower (strip (task_name t)) = py_lower (strip name)))
         \<and> snd (complete_task env self name) =
             (write_ok env \<and> (\<exists>t \<in> set (open_tasks d). strip (task_name t) = strip name))
         \<and> snd (delete_task example_env example_report_state ''report'')
         \<and> \<not> snd (complete_task example_env example_report_state ''report'')"
proof -
  let ?d = "\<lparr>open_tasks = [example_task ''Report'' ''Acme''], completed_tasks = []\<rparr>"
  have g: "get_tasks example_report_state = (example_report_state\<lparr>tasks_data := Some ?d\<rparr>, Some ?d)"
    by (simp add: get_tasks_def example_report_state_def)
  have "snd (delete_task example_env example_report_state ''report'')"
    by (simp add: delete_task_result[OF g] example_env_def example_task_def str_defs)
  moreover have "\<not> snd (complete_task example_env example_report_state ''report'')"
    by (simp add: complete_task_result[OF g] example_env_def example_task_def str_defs)
  ultimately show ?thesis
    using delete_task_data[OF assms] delete_task_result[OF assms] complete_task_result[OF assms]
    by simp
qed

theorem delete_ignores_case_complete_does_not_witness:
  "get_tasks example_report_state =
     (example_report_state
        \<lparr>tasks_data := Some \<lparr>open_tasks = [example_task ''Report'' ''Acme''], completed_tasks = []\<rparr>\<rparr>,
      Some \<lparr>open_tasks = [example_task ''Report'' ''Acme''], completed_tasks = []\<rparr>)
   \<and> tasks_data (fst (delete_task example_env example_report_state ''REPORT ''))
       = Some \<lparr>open_tasks = [], completed_tasks = []\<rparr>
   \<and> snd (delete_task example_env example_report_state ''REPORT '')
   \<and> \<not> snd (complete_task example_env example_report_state ''REPORT '')
   \<and> snd (complete_task example_env example_report_state ''Report '')"
proof -
  let ?d = "\<lparr>open_tasks = [example_task ''Report'' ''Acme''], completed_tasks = []\<rparr>"
  have g: "get_tasks example_report_state = (example_report_state\<lparr>tasks_data := Some ?d\<rparr>, Some ?d)"
    by (simp add: get_tasks_def example_report_state_def)
  show ?thesis
    using g
      delete_ignores_case_complete_does_not[OF g, of example_env "''REPORT ''"]
      delete_ignores_case_complete_does_not[OF g, of example_env "''Report ''"]
    by (simp add: example_env_def example_task_def str_defs)
qed

section \<open>Properties of the conversation history\<close>

lemma save_current_chat_history:
  "conversation_history (fst (save_current_chat env self)) = conversation_history self"
  by (simp add: save_current_chat_def)

lemma gtm_step_error:
  "snd (gtm_process_query env self q) = Inl e \<Longrightarrow> fst (gtm_process_query env self q) = self"
  by (auto simp: gtm_process_query_def Let_def split: sum.splits if_splits prod.splits)

lemma gtm_step:
  "conversation_history (fst (gtm_process_query env self q)) = conversation_history self
   \<or> (\<exists>r. conversation_history (fst (gtm_process_query env self q))
           = conversation_history self @ [create_message q ''user'', create_message r ''assistant''])"
  by (auto simp: gtm_process_query_def Let_def split: sum.splits prod.splits)

lemma spanish_step_error:
  "snd (spanish_process_query env self q) = Inl e \<Longrightarrow> fst (spanish_process_query env self q) = self"
  by (auto simp: spanish_process_query_def save_current_chat_def Let_def split: sum.splits if_splits prod.splits bool.splits)

lemma spanish_step:
  "conversation_history (fst (spanish_process_query env self q)) = conversation_history self
   \<or> (\<exists>r. conversation_history (fst (spanish_process_query env self q))
           = conversation_history self @ [create_message q ''user'', create_message r ''assistant''])"
  by (auto simp: spanish_process_query_def save_current_chat_def Let_def split: sum.splits prod.splits bool.splits)

lemma get_tasks_history:
  "conversation_history (fst (get_tasks self)) = conversation_history self"
  by (simp add: get_tasks_def split: option.splits)

lemma save_tasks_history:
  "conversation_history (fst (save_tasks env self d)) = conversation_history self"
  by (simp add: save_tasks_def)

lemma add_task_history:
  "conversation_history (fst (add_task env self n p de du l)) = conversation_history self"
  using get_tasks_history[of self]
  by (auto simp: add_task_def Let_def save_tasks_def split: prod.splits option.splits)

lemma complete_task_history:
  "conversation_history (fst (complete_task env self n)) = conversation_history self"
  using get_tasks_history[of self]
  by (auto simp: complete_task_def Let_def save_tasks_def split: prod.splits option.splits)

lemma delete_task_history:
  "conversation_history (fst (delete_task env self n)) = conversation_history self"
  using get_tasks_history[of self]
  by (auto simp: delete_task_def Let_def save_tasks_def split: prod.splits option.splits)

lemma task_delete_branch:
  assumes "startswith (py_lower q) ''delete task:''"
  shows "fst (task_process_query env self q)
           = fst (delete_task env self (strip (drop (length ''delete task:'') q)))"
    and "\<exists>r. snd (task_process_query env self q) = Inr r"
  using assms
  by (simp_all add: task_process_query_def Let_def split: prod.splits bool.splits)

lemma fst_case_bool:
  "fst (case p of (s, True) \<Rightarrow> (s, f s) | (s, False) \<Rightarrow> (s, g s)) = fst p"
  by (cases p) (simp split: bool.splits)

lemma snd_case_bool_Inr:
  "\<exists>r. snd (case p of (s, True) \<Rightarrow> (s, Inr (f s)) | (s, False) \<Rightarrow> (s, Inr (g s))) = Inr r"
  by (cases p) (simp split: bool.splits)

lemma task_add_branch:
  assumes "\<not> startswith (py_lower q) ''delete task:''" "startswith (py_lower q) ''add task:''"
  shows "conversation_history (fst (task_process_query env self q)) = conversation_history self"
    and "\<exists>r. snd (task_process_query env self q) = Inr r"
proof -
  show "conversation_history (fst (task_process_query env self q)) = conversation_history self"
  proof (cases "length (split CHR ''|'' (drop 9 q)) < 2")
    case True
    with assms show ?thesis by (simp add: task_process_query_def Let_def)
  next
    case False
    with assms show ?thesis
      by (simp add: task_process_query_def Let_def fst_case_bool add_task_history
          split del: if_split)
  qed
  show "\<exists>r. snd (task_process_query env self q) = Inr r"
  proof (cases "length (split CHR ''|'' (drop 9 q)) < 2")
    case True
    with assms show ?thesis by (simp add: task_process_query_def Let_def)
  next
    case False
    with assms show ?thesis
      by (simp add: task_process_query_def Let_def snd_case_bool_Inr split del: if_split)
  qed
qed

lemma task_complete_branch:
  assumes "\<not> startswith (py_lower q) ''delete task:''" "\<not> startswith (py_lower q) ''add task:''"
    "startswith (py_lower q) ''complete task:''"
  shows "fst (task_process_query env self q)
           = fst (complete_task env self (strip_chars '': '' (drop (length ''complete task:'') q)))"
    and "\<exists>r. snd (task_process_query env self q) = Inr r"
  using assms
  by (simp_all add: task_process_query_def Let_def split: prod.splits bool.splits)

lemma task_listing_branch:
  assumes "\<not> startswith (py_lower q) ''delete task:''" "\<not> startswith (py_lower q) ''add task:''"
    "\<not> startswith (py_lower q) ''complete task:''" "py_lower q \<in> set listing_commands"
  shows "fst (task_process_query env self q) = fst (get_tasks self)"
    and "\<exists>r. snd (task_process_query env self q) = Inr r"
  using assms
  by (simp_all add: task_process_query_def Let_def split: prod.splits option.splits)

lemma task_chat_branch:
  assumes "\<not> startswith (py_lower q) ''delete task:''" "\<not> startswith (py_lower q) ''add task:''"
    "\<not> startswith (py_lower q) ''complete task:''" "py_lower q \<notin> set listing_commands"
  shows "task_process_query env self q =
           (case chat env (task_messages self q) of
              Inl e \<Rightarrow> (self, Inl e)
            | Inr r \<Rightarrow>
                (self\<lparr>conversation_history :=
                        conversation_history self
                        @ [create_message q ''user'', create_message r ''assistant'']\<rparr>,
                 Inr r))"
  using assms
  by (simp add: task_process_query_def)

lemma task_step:
  "conversation_history (fst (task_process_query env self q)) = conversation_history self
   \<or> (\<exists>r. conversation_history (fst (task_process_query env self q))
           = conversation_history self @ [create_message q ''user'', create_message r ''assistant''])"
proof (cases "startswith (py_lower q) ''delete task:''")
  case True
  from task_delete_branch[OF True, of env self] show ?thesis
    by (auto simp: delete_task_history)
next
  case nd: False
  show ?thesis
  proof (cases "startswith (py_lower q) ''add task:''")
    case True
    from task_add_branch[OF nd True, of env self] show ?thesis by auto
  next
    case na: False
    show ?thesis
    proof (cases "startswith (py_lower q) ''complete task:''")
      case True
      from task_complete_branch[OF nd na True, of env self] show ?thesis
        by (auto simp: complete_task_history)
    next
      case nc: False
      show ?thesis
      proof (cases "py_lower q \<in> set listing_commands")
        case True
        from task_listing_branch[OF nd na nc True, of env self] show ?thesis
          by (auto simp: get_tasks_history)
      next
        case False
        show ?thesis
          by (auto simp add: task_chat_branch[OF nd na nc False] split: sum.splits)
      qed
    qed
  qed
qed

lemma delete_loop_eq:
  "delete_loop ms name (acc, found) =
     (acc @ filter (\<lambda>m. \<not> contains (content m) name) ms,
      found \<or> (\<exists>m \<in> set ms. contains (content m) name))"
  by (induction ms arbitrary: acc found) auto

lemma filter_all_kept: "\<not> (\<exists>m \<in> set ms. \<not> P m) \<Longrightarrow> filter P ms = ms"
  by (induction ms) auto

lemma therapy_delete_branch:
  assumes "startswith (py_lower q) ''delete task:''"
  shows "conversation_history (fst (therapy_process_query env self q))
           = filter (\<lambda>m. \<not> contains (content m) (strip (drop (length ''delete task:'') q)))
               (conversation_history self)"
    and "\<exists>r. snd (therapy_process_query env self q) = Inr r"
  using assms
  by (auto simp add: therapy_process_query_def Let_def delete_loop_eq filter_all_kept)

lemma therapy_quit_branch:
  assumes "\<not> startswith (py_lower q) ''delete task:''" "py_lower q = ''cmd quit''"
  shows "conversation_history (fst (therapy_process_query env self q)) = conversation_history self"
    and "\<exists>r. snd (therapy_process_query env self q) = Inr r"
  using assms
  by (simp_all add: therapy_process_query_def fst_case_bool snd_case_bool_Inr
      save_current_chat_history)

lemma init_system_messages_history:
  "conversation_history (fst (init_system_messages self)) = conversation_history self"
  by (simp add: init_system_messages_def Let_def)

lemma therapy_chat_branch:
  assumes "\<not> startswith (py_lower q) ''delete task:''" "py_lower q \<noteq> ''cmd quit''"
  shows "conversation_history (fst (therapy_process_query env self q))
           = conversation_history self @ [create_message q ''user'']
             @ (case snd (therapy_process_query env self q) of
                  Inl e \<Rightarrow> []
                | Inr r \<Rightarrow> [create_message r ''assistant''])"
  using assms
  by (auto simp add: therapy_process_query_def Let_def init_system_messages_def
      split: option.splits sum.splits prod.splits)

lemma run_Nil: "run pq s [] = s"
  by (simp add: run_def)

lemma run_Cons: "run pq s ((env, q) # calls) = run pq (fst (pq env s q)) calls"
  by (simp add: run_def)

lemma run_prefix:
  assumes "\<And>env s q. prefix (conversation_history s) (conversation_history (fst (pq env s q)))"
  shows "prefix (conversation_history s) (conversation_history (run pq s calls))"
proof (induction calls arbitrary: s)
  case Nil
  then show ?case by (simp add: run_Nil)
next
  case (Cons c calls)
  obtain env q where c: "c = (env, q)" by (cases c)
  from assms[of s env q] Cons.IH[of "fst (pq env s q)"] show ?case
    unfolding c run_Cons by (rule prefix_order.trans)
qed

lemma gtm_prefix:
  "prefix (conversation_history s) (conversation_history (fst (gtm_process_query env s q)))"
  using gtm_step[of env s q] by (auto simp: prefix_def)

lemma spanish_prefix:
  "prefix (conversation_history s) (conversation_history (fst (spanish_process_query env s q)))"
  using spanish_step[of env s q] by (auto simp: prefix_def)

lemma task_prefix:
  "prefix (conversation_history s) (conversation_history (fst (task_process_query env s q)))"
  using task_step[of env s q] by (auto simp: prefix_def)

lemma therapy_prefix:
  assumes "\<not> startswith (py_lower q) ''delete task:''"
  shows "prefix (conversation_history s) (conversation_history (fst (therapy_process_query env s q)))"
proof (cases "py_lower q = ''cmd quit''")
  case True
  from therapy_quit_branch(1)[OF assms True, of env s] show ?thesis by simp
next
  case False
  from therapy_chat_branch[OF assms False, of env s] show ?thesis by (simp add: prefix_def)
qed

lemma therapy_run_prefix:
  assumes "\<forall>(env, q) \<in> set calls. \<not> startswith (py_lower q) ''delete task:''"
  shows "prefix (conversation_history s) (conversation_history (run therapy_process_query s calls))"
  using assms
proof (induction calls arbitrary: s)
  case Nil
  then show ?case by (simp add: run_Nil)
next
  case (Cons c calls)
  obtain env q where c: "c = (env, q)" by (cases c)
  from Cons.prems c have nd: "\<not> startswith (py_lower q) ''delete task:''"
    and rest: "\<forall>(env, q) \<in> set calls. \<not> startswith (py_lower q) ''delete task:''"
    by auto
  from therapy_prefix[OF nd, of s env] Cons.IH[OF rest, of "fst (therapy_process_query env s q)"]
  show ?case unfolding c run_Cons by (rule prefix_order.trans)
qed

lemma therapy_run_order:
  "\<exists>kept added. conversation_history (run therapy_process_query s calls) = kept @ added
      \<and> subseq kept (conversation_history s)"
proof (induction calls arbitrary: s)
  case Nil
  have "conversation_history s = conversation_history s @ []" by simp
  then show ?case unfolding run_Nil by blast
next
  case (Cons c calls)
  obtain env q where c: "c = (env, q)" by (cases c)
  let ?s = "fst (therapy_process_query env s q)"
  from Cons.IH[of ?s] obtain kept added where
    h: "conversation_history (run therapy_process_query ?s calls) = kept @ added"
    and k: "subseq kept (conversation_history ?s)" by blast
  show ?case
  proof (cases "startswith (py_lower q) ''delete task:''")
    case True
    from therapy_delete_branch(1)[OF True, of env s] k
    have "subseq kept (conversation_history s)"
      using subseq_order.trans[OF _ subseq_filter_left] by simp
    with h show ?thesis unfolding c run_Cons by blast
  next
    case False
    from therapy_prefix[OF False, of s env] obtain zs where
      "conversation_history ?s = conversation_history s @ zs" by (auto simp: prefix_def)
    with k have "subseq kept (conversation_history s @ zs)" by simp
    then obtain k1 k2 where "kept = k1 @ k2" "subseq k1 (conversation_history s)"
      by (rule subseq_appendE)
    with h have "conversation_history (run therapy_process_query ?s calls) = k1 @ (k2 @ added)
        \<and> subseq k1 (conversation_history s)" by simp
    then show ?thesis unfolding c run_Cons by blast
  qed
qed

lemma therapy_error:
  assumes "snd (therapy_process_query env s q) = Inl e"
  shows "conversation_history (fst (therapy_process_query env s q))
           = conversation_history s @ [create_message q ''user'']"
proof (cases "startswith (py_lower q) ''delete task:''")
  case True
  from therapy_delete_branch(2)[OF True, of env s] assms show ?thesis by auto
next
  case nd: False
  show ?thesis
  proof (cases "py_lower q = ''cmd quit''")
    case True
    from therapy_quit_branch(2)[OF nd True, of env s] assms show ?thesis by auto
  next
    case False
    from therapy_chat_branch[OF nd False, of env s] assms show ?thesis by simp
  qed
qed

lemma task_step_error:
  assumes "snd (task_process_query env self q) = Inl e"
  shows "fst (task_process_query env self q) = self"
proof (cases "startswith (py_lower q) ''delete task:''")
  case True
  from task_delete_branch(2)[OF True, of env self] assms show ?thesis by auto
next
  case nd: False
  show ?thesis
  proof (cases "startswith (py_lower q) ''add task:''")
    case True
    from task_add_branch(2)[OF nd True, of env self] assms show ?thesis by auto
  next
    case na: False
    show ?thesis
    proof (cases "startswith (py_lower q) ''complete task:''")
      case True
      from task_complete_branch(2)[OF nd na True, of env self] assms show ?thesis by auto
    next
      case nc: False
      show ?thesis
      proof (cases "py_lower q \<in> set listing_commands")
        case True
        from task_listing_branch(2)[OF nd na nc True, of env self] assms show ?thesis by auto
      next
        case False
        from assms show ?thesis
          by (auto simp add: task_chat_branch[OF nd na nc False] split: sum.splits)
      qed
    qed
  qed
qed

lemma hello_session_history:
  "conversation_history hello_session
     = [create_message ''hello'' ''user'', create_message ''ok'' ''assistant'']"
  by (simp add: hello_session_def run_def therapy_process_query_def therapy_init_def
      init_system_messages_def example_env_def Let_def str_defs)

text \<open>
  Claim C2 as stated fails in the therapy script: after one exchange, the query
  \<^verbatim>\<open>delete task: hello\<close> removes the user message \<^verbatim>\<open>hello\<close> from the history,
  and no session reset has taken place.
\<close>

theorem therapy_delete_removes_message:
  "conversation_history hello_session
     = [\<lparr>role = ''user'', content = ''hello''\<rparr>, \<lparr>role = ''assistant'', content = ''ok''\<rparr>]
   \<and> conversation_history (fst (therapy_process_query example_env hello_session ''delete task: hello''))
     = [\<lparr>role = ''assistant'', content = ''ok''\<rparr>]
   \<and> \<not> prefix (conversation_history hello_session)
         (conversation_history
            (fst (therapy_process_query example_env hello_session ''delete task: hello'')))"
proof -
  have d: "startswith (py_lower ''delete task: hello'') ''delete task:''"
    by (simp add: str_defs)
  have n: "strip (drop (length ''delete task:'') ''delete task: hello'') = ''hello''"
    by (simp add: str_defs)
  show ?thesis
    by (simp add: therapy_delete_branch(1)[OF d] n[simplified] hello_session_history
        create_message_def startswith_def)
qed

text \<open>
  Claim C2, amended. In the GTM, Spanish and task scripts the history before any
  sequence of calls of \<^verbatim>\<open>process_query\<close> is a prefix of the history after it. In the
  therapy script the same holds for every sequence without a \<^verbatim>\<open>delete task:\<close>
  query; a \<^verbatim>\<open>delete task:\<close> query leaves exactly the messages whose content does
  not contain the given name, in their order. In every therapy session the history is
  some of the old messages in their old order, followed by messages added since.
\<close>

theorem history_append_only_except_therapy_delete:
  "prefix (conversation_history g) (conversation_history (run gtm_process_query g calls))
   \<and> prefix (conversation_history s) (conversation_history (run spanish_process_query s calls))
   \<and> prefix (conversation_history t) (conversation_history (run task_process_query t calls))
   \<and> ((\<forall>(env, q) \<in> set calls. \<not> startswith (py_lower q) ''delete task:'') \<longrightarrow>
        prefix (conversation_history th)
          (conversation_history (run therapy_process_query th calls)))
   \<and> (startswith (py_lower query) ''delete task:'' \<longrightarrow>
        conversation_history (fst (therapy_process_query env th query))
          = filter (\<lambda>m. \<not> contains (content m) (strip (drop (length ''delete task:'') query)))
              (conversation_history th))
   \<and> (\<exists>kept added.
         conversation_history (run therapy_process_query th calls) = kept @ added
         \<and> subseq kept (conversation_history th))"
  using run_prefix[of gtm_process_query g calls, OF gtm_prefix]
    run_prefix[of spanish_process_query s calls, OF spanish_prefix]
    run_prefix[of task_process_query t calls, OF task_prefix]
    therapy_run_prefix[of calls th] therapy_delete_branch(1)[of query env th]
    therapy_run_order[of th calls]
  by blast

theorem history_append_only_except_therapy_delete_witness:
  "startswith (py_lower ''delete task: hello'') ''delete task:''
   \<and> conversation_history (fst (therapy_process_query example_env hello_session ''delete task: hello''))
       = filter (\<lambda>m. \<not> contains (content m) ''hello'') (conversation_history hello_session)
   \<and> \<not> startswith (py_lower ''how are you'') ''delete task:''
   \<and> prefix (conversation_history hello_session)
         (conversation_history
            (run therapy_process_query hello_session [(example_env, ''how are you'')]))"
proof -
  have d: "startswith (py_lower ''delete task: hello'') ''delete task:''"
    by (simp add: str_defs)
  have n: "strip (drop (length ''delete task:'') ''delete task: hello'') = ''hello''"
    by (simp add: str_defs)
  have c: "\<forall>(env, q) \<in> set [(example_env, ''how are you'')].
             \<not> startswith (py_lower q) ''delete task:''"
    by (simp add: str_defs)
  from c have c': "\<not> startswith (py_lower ''how are you'') ''delete task:''" by simp
  show ?thesis
    using d n c c'
      history_append_only_except_therapy_delete
        [of _ "[(example_env, ''how are you'')]" _ _ hello_session
            "''delete task: hello''" example_env]
    by simp
qed

text \<open>
  Claim C3, amended. When \<^verbatim>\<open>process_query\<close> ends with an exception, the GTM,
  Spanish and task scripts leave the whole state as it was. The therapy script has
  appended the user message before it calls the completion endpoint, so its history is
  then the old history followed by that user message, with no assistant message.
\<close>

theorem failed_completion_state:
  "(snd (gtm_process_query env g q) = Inl e \<longrightarrow> fst (gtm_process_query env g q) = g)
   \<and> (snd (spanish_process_query env s q) = Inl e \<longrightarrow> fst (spanish_process_query env s q) = s)
   \<and> (snd (task_process_query env t q) = Inl e \<longrightarrow> fst (task_process_query env t q) = t)
   \<and> (snd (therapy_process_query env th q) = Inl e \<longrightarrow>
        conversation_history (fst (therapy_process_query env th q))
          = conversation_history th @ [create_message q ''user''])"
  using gtm_step_error[of env g q e] spanish_step_error[of env s q e]
    task_step_error[of env t q e] therapy_error[of env th q e]
  by blast

lemma failing_env_results:
  "snd (gtm_process_query failing_env \<lparr>conversation_history = []\<rparr> ''hello'')
     = Inl (Exception ''connection refused'')"
  "snd (spanish_process_query failing_env (spanish_init []) ''hello'')
     = Inl (Exception ''connection refused'')"
  "snd (task_process_query failing_env (task_init None) ''hello'')
     = Inl (Exception ''connection refused'')"
  "snd (therapy_process_query failing_env (therapy_init '''' []) ''hello'')
     = Inl (Exception ''connection refused'')"
  by (simp_all add: gtm_process_query_def spanish_process_query_def task_process_query_def
      therapy_process_query_def failing_env_def example_env_def search_documents_def
      therapy_init_def init_system_messages_def listing_commands_def Let_def str_defs)

theorem failed_completion_state_witness:
  "snd (gtm_process_query failing_env \<lparr>conversation_history = []\<rparr> ''hello'')
     = Inl (Exception ''connection refused'')
   \<and> fst (gtm_process_query failing_env \<lparr>conversation_history = []\<rparr> ''hello'')
     = \<lparr>conversation_history = []\<rparr>
   \<and> fst (spanish_process_query failing_env (spanish_init []) ''hello'') = spanish_init []
   \<and> fst (task_process_query failing_env (task_init None) ''hello'') = task_init None
   \<and> conversation_history (fst (therapy_process_query failing_env (therapy_init '''' []) ''hello''))
     = conversation_history (therapy_init '''' []) @ [create_message ''hello'' ''user'']"
  using failing_env_results
    failed_completion_state
      [of failing_env "\<lparr>conversation_history = []\<rparr>" "''hello''"
          "Exception ''connection refused''" "spanish_init []" "task_init None"
          "therapy_init '''' []"]
  by simp

text \<open>
  Claim C3 as stated fails in the therapy script: with a completion endpoint that
  raises, the first query of a session stays in the history.
\<close>

theorem therapy_failed_completion_keeps_query:
  "snd (therapy_process_query failing_env (therapy_init '''' []) ''hello'')
     = Inl (Exception ''connection refused'')
   \<and> conversation_history (therapy_init '''' []) = []
   \<and> conversation_history (fst (therapy_process_query failing_env (therapy_init '''' []) ''hello''))
     = [\<lparr>role = ''user'', content = ''hello''\<rparr>]"
  by (simp add: therapy_process_query_def failing_env_def example_env_def
      therapy_init_def init_system_messages_def create_message_def last_n_def Let_def str_defs)

text \<open>
  Claim C4 at a session of two queries, \<^verbatim>\<open>a\<close> and \<^verbatim>\<open>b\<close>, each answered
  \<^verbatim>\<open>ok\<close>. The cached list holds the three system messages after \<^verbatim>\<open>__init__\<close>, a
  fourth message after the first query, and seven after the second; the prompt of the
  second query is that list of seven, in which the first user message stands twice.
\<close>

theorem therapy_system_messages_grow:
  "system_messages (therapy_init past dir) = Some (therapy_system_prompt past)
   \<and> system_messages (fst (therapy_process_query example_env (therapy_init past dir) ''a''))
     = Some (therapy_system_prompt past @ [create_message ''a'' ''user''])
   \<and> system_messages
       (run therapy_process_query (therapy_init past dir) [(example_env, ''a''), (example_env, ''b'')])
     = Some (therapy_system_prompt past
             @ [create_message ''a'' ''user'',
                create_message ''a'' ''user'', create_message ''ok'' ''assistant'',
                create_message ''b'' ''user''])
   \<and> snd (therapy_process_query
            (probe_env (therapy_system_prompt past
                        @ [create_message ''a'' ''user'',
                           create_message ''a'' ''user'', create_message ''ok'' ''assistant'',
                           create_message ''b'' ''user'']))
            (fst (therapy_process_query example_env (therapy_init past dir) ''a'')) ''b'')
     = Inr ''same prompt''"
  by (simp add: therapy_process_query_def run_def probe_env_def example_env_def
      therapy_init_def init_system_messages_def therapy_system_prompt_def last_n_def
      Let_def str_defs)

section \<open>The history window\<close>

lemma gtm_cycle:
  assumes "replies env" "vectordb env q 9 = Inr rs" "py_lower q \<noteq> ''quit''"
  shows "\<exists>x y. conversation_history (fst (gtm_process_query env s q))
                 = conversation_history s @ [x, y]"
proof -
  obtain ctx srcs where c: "search_loop rs ('''', []) = (ctx, srcs)" by (cases "search_loop rs ('''', [])")
  from assms(1) obtain r where
    "chat env (gtm_messages env (conversation_history s) q ctx srcs) = Inr r"
    unfolding replies_def by blast
  with assms(2,3) c show ?thesis
    by (simp add: gtm_process_query_def search_documents_def Let_def)
qed

lemma spanish_cycle:
  assumes "replies env" "py_lower q \<noteq> ''cmd quit''"
  shows "\<exists>x y. conversation_history (fst (spanish_process_query env s q))
                 = conversation_history s @ [x, y]"
proof -
  from assms(1) obtain r where "chat env (spanish_messages s q) = Inr r"
    unfolding replies_def by blast
  with assms(2) show ?thesis
    by (simp add: spanish_process_query_def)
qed

lemma task_cycle:
  assumes "replies env" "\<not> task_command q"
  shows "\<exists>x y. conversation_history (fst (task_process_query env s q))
                 = conversation_history s @ [x, y]"
proof -
  from assms(1) obtain r where "chat env (task_messages s q) = Inr r"
    unfolding replies_def by blast
  with assms(2) show ?thesis
    by (simp add: task_command_def task_chat_branch)
qed

lemma run_cycles_length:
  assumes "\<And>env q s. (env, q) \<in> set calls \<Longrightarrow>
             \<exists>x y. conversation_history (fst (pq env s q)) = conversation_history s @ [x, y]"
  shows "length (conversation_history (run pq s calls))
           = length (conversation_history s) + 2 * length calls"
  using assms
proof (induction calls arbitrary: s)
  case Nil
  then show ?case by (simp add: run_Nil)
next
  case (Cons c calls)
  obtain env q where c: "c = (env, q)" by (cases c)
  from Cons.prems[of env q s] c
  have "length (conversation_history (fst (pq env s q))) = length (conversation_history s) + 2"
    by auto
  moreover have "length (conversation_history (run pq (fst (pq env s q)) calls))
           = length (conversation_history (fst (pq env s q))) + 2 * length calls"
    by (rule Cons.IH) (use Cons.prems in auto)
  ultimately show ?case unfolding c run_Cons by simp
qed

lemma window_facts:
  assumes "length h = 2 * n"
  shows "last_n 5 h = drop (2 * n - 5) h"
    and "2 * n < 5 \<longrightarrow> last_n 5 h = h"
    and "5 \<le> 2 * n \<longrightarrow> length (last_n 5 h) = 5"
  using assms by (simp_all add: last_n_def)

lemma gtm_window:
  assumes "\<forall>(env, q) \<in> set calls.
        replies env \<and> (\<exists>rs. vectordb env q 9 = Inr rs) \<and> py_lower q \<noteq> ''quit''"
  shows "length (conversation_history (run gtm_process_query \<lparr>conversation_history = []\<rparr> calls))
           = 2 * length calls"
  using run_cycles_length[of calls gtm_process_query "\<lparr>conversation_history = []\<rparr>"]
    gtm_cycle assms
  by fastforce

lemma spanish_window:
  assumes "\<forall>(env, q) \<in> set calls. replies env \<and> py_lower q \<noteq> ''cmd quit''"
  shows "length (conversation_history (run spanish_process_query (spanish_init dir) calls))
           = 2 * length calls"
proof -
  have "conversation_history (spanish_init dir) = []"
    by (simp add: spanish_init_def load_past_chats_def)
  with run_cycles_length[of calls spanish_process_query "spanish_init dir"] spanish_cycle assms
  show ?thesis by fastforce
qed

lemma task_window:
  assumes "\<forall>(env, q) \<in> set calls. replies env \<and> \<not> task_command q"
  shows "length (conversation_history (run task_process_query (task_init stored) calls))
           = 2 * length calls"
proof -
  have "conversation_history (task_init stored) = []"
    by (simp add: task_init_def)
  with run_cycles_length[of calls task_process_query "task_init stored"] task_cycle assms
  show ?thesis by fastforce
qed

text \<open>
  Claim C7. A session of the GTM, Spanish or task script starts with an empty history.
  After \<open>n\<close> calls of \<^verbatim>\<open>process_query\<close> that each reach the completion endpoint
  and get a reply, the history holds \<open>2 * n\<close> messages, and the next query that is no
  command hands the endpoint the system messages, then the last five messages of the
  history in their order (all of them when \<open>2 * n < 5\<close>), then the new user message;
  what the endpoint answers to that list is what the call makes of it.
\<close>

theorem window_is_last_five:
  "((\<forall>(env, q) \<in> set calls.
         replies env \<and> (\<exists>rs. vectordb env q 9 = Inr rs) \<and> py_lower q \<noteq> ''quit'')
     \<and> py_lower query \<noteq> ''quit''
     \<and> search_documents (vectordb env) query 9 = Inr (ctx, sources) \<longrightarrow>
      (let self = run gtm_process_query \<lparr>conversation_history = []\<rparr> calls;
           h = conversation_history self;
           n = length calls;
           window = drop (2 * n - 5) h
       in length h = 2 * n
          \<and> (2 * n < 5 \<longrightarrow> window = h)
          \<and> (5 \<le> 2 * n \<longrightarrow> length window = 5)
          \<and> gtm_process_query env self query =
              (case chat env (gtm_system_messages env ctx sources @ window @ [create_message query ''user'']) of
                 Inl e \<Rightarrow> (self, Inl e)
               | Inr response \<Rightarrow>
                   (let response_content =
                          (if \<not> endswith (strip response) '']''
                           then response @ ''\<newline>\<newline>Sources: '' @ str_of_list env sources
                           else response)
                    in (self\<lparr>conversation_history :=
                               h @ [create_message query ''user'',
                                    create_message response_content ''assistant'']\<rparr>,
                        Inr response_content)))))
   \<and> ((\<forall>(env, q) \<in> set calls. replies env \<and> py_lower q \<noteq> ''cmd quit'')
     \<and> py_lower query \<noteq> ''cmd quit'' \<longrightarrow>
      (let self = run spanish_process_query (spanish_init dir) calls;
           h = conversation_history self;
           n = length calls;
           window = drop (2 * n - 5) h
       in length h = 2 * n
          \<and> (2 * n < 5 \<longrightarrow> window = h)
          \<and> (5 \<le> 2 * n \<longrightarrow> length window = 5)
          \<and> spanish_process_query env self query =
              (case chat env (spanish_system_messages self @ window @ [create_message query ''user'']) of
                 Inl e \<Rightarrow> (self, Inl e)
               | Inr response \<Rightarrow>
                   (self\<lparr>conversation_history :=
                           h @ [create_message query ''user'',
                                create_message response ''assistant'']\<rparr>,
                    Inr response))))
   \<and> ((\<forall>(env, q) \<in> set calls. replies env \<and> \<not> task_command q)
     \<and> \<not> task_command query \<longrightarrow>
      (let self = run task_process_query (task_init stored) calls;
           h = conversation_history self;
           n = length calls;
           window = drop (2 * n - 5) h
       in length h = 2 * n
          \<and> (2 * n < 5 \<longrightarrow> window = h)
          \<and> (5 \<le> 2 * n \<longrightarrow> length window = 5)
          \<and> task_process_query env self query =
              (case chat env (task_system_messages @ window @ [create_message query ''user'']) of
                 Inl e \<Rightarrow> (self, Inl e)
               | Inr response \<Rightarrow>
                   (self\<lparr>conversation_history :=
                           h @ [create_message query ''user'',
                                create_message response ''assistant'']\<rparr>,
                    Inr response))))"
proof (intro conjI impI)
  assume a: "(\<forall>(env, q) \<in> set calls.
         replies env \<and> (\<exists>rs. vectordb env q 9 = Inr rs) \<and> py_lower q \<noteq> ''quit'')
     \<and> py_lower query \<noteq> ''quit''
     \<and> search_documents (vectordb env) query 9 = Inr (ctx, sources)"
  then have c: "\<forall>(env, q) \<in> set calls.
         replies env \<and> (\<exists>rs. vectordb env q 9 = Inr rs) \<and> py_lower q \<noteq> ''quit''"
    and q: "py_lower query \<noteq> ''quit''"
    and s: "search_documents (vectordb env) query 9 = Inr (ctx, sources)"
    by blast+
  from gtm_window[OF c] q s show "(let self = run gtm_process_query \<lparr>conversation_history = []\<rparr> calls;
           h = conversation_history self;
           n = length calls;
           window = drop (2 * n - 5) h
       in length h = 2 * n
          \<and> (2 * n < 5 \<longrightarrow> window = h)
          \<and> (5 \<le> 2 * n \<longrightarrow> length window = 5)
          \<and> gtm_process_query env self query =
              (case chat env (gtm_system_messages env ctx sources @ window @ [create_message query ''user'']) of
                 Inl e \<Rightarrow> (self, Inl e)
               | Inr response \<Rightarrow>
                   (let response_content =
                          (if \<not> endswith (strip response) '']''
                           then response @ ''\<newline>\<newline>Sources: '' @ str_of_list env sources
                           else response)
                    in (self\<lparr>conversation_history :=
                               h @ [create_message query ''user'',
                                    create_message response_content ''assistant'']\<rparr>,
                        Inr response_content))))"
    by (simp add: Let_def gtm_process_query_def gtm_messages_def last_n_def)
next
  assume a: "(\<forall>(env, q) \<in> set calls. replies env \<and> py_lower q \<noteq> ''cmd quit'')
     \<and> py_lower query \<noteq> ''cmd quit''"
  then have c: "\<forall>(env, q) \<in> set calls. replies env \<and> py_lower q \<noteq> ''cmd quit''"
    and q: "py_lower query \<noteq> ''cmd quit''"
    by blast+
  from spanish_window[OF c, of dir] q show "(let self = run spanish_process_query (spanish_init dir) calls;
           h = conversation_history self;
           n = length calls;
           window = drop (2 * n - 5) h
       in length h = 2 * n
          \<and> (2 * n < 5 \<longrightarrow> window = h)
          \<and> (5 \<le> 2 * n \<longrightarrow> length window = 5)
          \<and> spanish_process_query env self query =
              (case chat env (spanish_system_messages self @ window @ [create_message query ''user'']) of
                 Inl e \<Rightarrow> (self, Inl e)
               | Inr response \<Rightarrow>
                   (self\<lparr>conversation_history :=
                           h @ [create_message query ''user'',
                                create_message response ''assistant'']\<rparr>,
                    Inr response)))"
    by (simp add: Let_def spanish_process_query_def spanish_messages_def last_n_def)
next
  assume a: "(\<forall>(env, q) \<in> set calls. replies env \<and> \<not> task_command q)
     \<and> \<not> task_command query"
  then have c: "\<forall>(env, q) \<in> set calls. replies env \<and> \<not> task_command q"
    and q: "\<not> task_command query"
    by blast+
  from q have b: "\<not> startswith (py_lower query) ''delete task:''"
    "\<not> startswith (py_lower query) ''add task:''"
    "\<not> startswith (py_lower query) ''complete task:''"
    "py_lower query \<notin> set listing_commands"
    by (simp_all add: task_command_def)
  from task_window[OF c, of stored] show "(let self = run task_process_query (task_init stored) calls;
           h = conversation_history self;
           n = length calls;
           window = drop (2 * n - 5) h
       in length h = 2 * n
          \<and> (2 * n < 5 \<longrightarrow> window = h)
          \<and> (5 \<le> 2 * n \<longrightarrow> length window = 5)
          \<and> task_process_query env self query =
              (case chat env (task_system_messages @ window @ [create_message query ''user'']) of
                 Inl e \<Rightarrow> (self, Inl e)
               | Inr response \<Rightarrow>
                   (self\<lparr>conversation_history :=
                           h @ [create_message query ''user'',
                                create_message response ''assistant'']\<rparr>,
                    Inr response)))"
    by (simp add: Let_def task_chat_branch[OF b] task_messages_def last_n_def)
qed

lemma example_histories:
  "conversation_history (run gtm_process_query \<lparr>conversation_history = []\<rparr> example_calls)
     = [create_message ''hola'' ''user'', create_message gtm_reply ''assistant'',
        create_message ''gracias'' ''user'', create_message gtm_reply ''assistant'',
        create_message ''adios'' ''user'', create_message gtm_reply ''assistant'']"
  "conversation_history (run task_process_query (task_init None) example_calls)
     = [create_message ''hola'' ''user'', create_message ''ok'' ''assistant'',
        create_message ''gracias'' ''user'', create_message ''ok'' ''assistant'',
        create_message ''adios'' ''user'', create_message ''ok'' ''assistant'']"
  "run spanish_process_query (spanish_init []) [(example_env, ''hola'')]
     = (spanish_init [])\<lparr>conversation_history :=
          [create_message ''hola'' ''user'', create_message ''ok'' ''assistant'']\<rparr>"
  by (simp_all add: run_def example_calls_def gtm_process_query_def task_process_query_def
      spanish_process_query_def search_documents_def example_env_def gtm_reply_def
      task_init_def spanish_init_def load_past_chats_def listing_commands_def endswith_def
      Let_def str_defs)

theorem window_is_last_five_witness:
  "replies example_env
   \<and> gtm_process_query (probe_env gtm_window_prompt)
        (run gtm_process_query \<lparr>conversation_history = []\<rparr> example_calls) ''next''
      = ((run gtm_process_query \<lparr>conversation_history = []\<rparr> example_calls)
           \<lparr>conversation_history :=
              conversation_history
                (run gtm_process_query \<lparr>conversation_history = []\<rparr> example_calls)
              @ [create_message ''next'' ''user'',
                 create_message ''same prompt\<newline>\<newline>Sources: []'' ''assistant'']\<rparr>,
         Inr ''same prompt\<newline>\<newline>Sources: []'')
   \<and> snd (task_process_query (probe_env task_window_prompt)
             (run task_process_query (task_init None) example_calls) ''next'')
      = Inr ''same prompt''
   \<and> snd (spanish_process_query (probe_env spanish_short_prompt)
             (run spanish_process_query (spanish_init []) [(example_env, ''hola'')]) ''next'')
      = Inr ''same prompt''"
proof -
  have r: "replies example_env"
    by (simp add: replies_def example_env_def)
  have n: "length example_calls = 3" by (simp add: example_calls_def)
  have g: "(\<forall>(env, q) \<in> set example_calls.
             replies env \<and> (\<exists>rs. vectordb env q 9 = Inr rs) \<and> py_lower q \<noteq> ''quit'')
           \<and> py_lower ''next'' \<noteq> ''quit''
           \<and> search_documents (vectordb (probe_env gtm_window_prompt)) ''next'' 9 = Inr ('''', [])"
    using r
    by (simp add: example_calls_def example_env_def probe_env_def search_documents_def str_defs)
  have t: "(\<forall>(env, q) \<in> set example_calls. replies env \<and> \<not> task_command q)
           \<and> \<not> task_command ''next''"
    using r by (simp add: example_calls_def task_command_def listing_commands_def str_defs)
  have s: "(\<forall>(env, q) \<in> set [(example_env, ''hola'')]. replies env \<and> py_lower q \<noteq> ''cmd quit'')
           \<and> py_lower ''next'' \<noteq> ''cmd quit''"
    using r by (simp add: str_defs)
  have k: "\<not> endswith (strip ''same prompt'') '']''"
    by (simp add: endswith_def str_defs)
  have gtm:
    "gtm_process_query (probe_env gtm_window_prompt)
        (run gtm_process_query \<lparr>conversation_history = []\<rparr> example_calls) ''next''
      = ((run gtm_process_query \<lparr>conversation_history = []\<rparr> example_calls)
           \<lparr>conversation_history :=
              conversation_history
                (run gtm_process_query \<lparr>conversation_history = []\<rparr> example_calls)
              @ [create_message ''next'' ''user'',
                 create_message ''same prompt\<newline>\<newline>Sources: []'' ''assistant'']\<rparr>,
         Inr ''same prompt\<newline>\<newline>Sources: []'')"
    using g n k
      window_is_last_five
        [of example_calls "''next''" "probe_env gtm_window_prompt" "''''" "[]" "[]" None]
    by (simp add: Let_def example_histories gtm_window_prompt_def gtm_system_messages_def
        probe_env_def example_env_def)
  have task:
    "snd (task_process_query (probe_env task_window_prompt)
             (run task_process_query (task_init None) example_calls) ''next'')
      = Inr ''same prompt''"
    using t n
      window_is_last_five
        [of example_calls "''next''" "probe_env task_window_prompt" "''''" "[]" "[]" None]
    by (simp add: Let_def example_histories task_window_prompt_def probe_env_def)
  have spanish:
    "snd (spanish_process_query (probe_env spanish_short_prompt)
             (run spanish_process_query (spanish_init []) [(example_env, ''hola'')]) ''next'')
      = Inr ''same prompt''"
    using s
      window_is_last_five
        [of "[(example_env, ''hola'')]" "''next''" "probe_env spanish_short_prompt" "''''" "[]"
            "[]" None]
    by (simp add: Let_def example_histories spanish_short_prompt_def
        spanish_system_messages_def probe_env_def)
  from r gtm task spanish show ?thesis by simp
qed

section \<open>Transcripts\<close>

lemma first_line_unique:
  assumes "CHR ''\<newline>'' \<notin> set a" "CHR ''\<newline>'' \<notin> set b"
      and "a @ CHR ''\<newline>'' # x = b @ CHR ''\<newline>'' # y"
  shows "a = b \<and> x = y"
  using assms
proof (induction a arbitrary: b)
  case Nil
  then show ?case by (cases b) auto
next
  case (Cons c a)
  then show ?case by (cases b) auto
qed

lemma transcript_line_inject:
  assumes "role m = ''user'' \<or> role m = ''assistant''" "CHR ''\<newline>'' \<notin> set (content m)"
      and "role m' = ''user'' \<or> role m' = ''assistant''" "CHR ''\<newline>'' \<notin> set (content m')"
      and "transcript_line m @ x = transcript_line m' @ y"
  shows "m = m' \<and> x = y"
proof -
  let ?l = "\<lambda>m. (if role m = ''user'' then ''User'' else ''Assistant'') @ '': '' @ content m"
  have nl: "CHR ''\<newline>'' \<notin> set (?l m)" "CHR ''\<newline>'' \<notin> set (?l m')"
    using assms(2,4) by auto
  have "?l m @ CHR ''\<newline>'' # x = ?l m' @ CHR ''\<newline>'' # y"
    using assms(5) by (simp add: transcript_line_def)
  from first_line_unique[OF nl this] have eq: "?l m = ?l m'" and xy: "x = y" by blast+
  from eq assms(1,3) have "role m = role m' \<and> content m = content m'"
    by (auto split: if_splits)
  then have "m = m'" by simp
  with xy show ?thesis by simp
qed

lemma transcript_line_nonempty: "transcript_line m @ x \<noteq> []"
  by (simp add: transcript_line_def)

lemma transcript_inject:
  assumes "transcript_ready h1" "transcript_ready h2"
      and "concat (chat_content h1) = concat (chat_content h2)"
  shows "h1 = h2"
  using assms
proof (induction h1 arbitrary: h2)
  case Nil
  then show ?case
    by (cases h2) (simp_all add: chat_content_def transcript_line_def)
next
  case (Cons m h1)
  show ?case
  proof (cases h2)
    case Nil
    with Cons.prems(3) show ?thesis
      by (simp add: chat_content_def transcript_line_def)
  next
    case (Cons m' h2')
    from Cons.prems(3) Cons
    have e: "transcript_line m @ concat (chat_content h1)
             = transcript_line m' @ concat (chat_content h2')"
      by (simp add: chat_content_def)
    from Cons.prems(1,2) Cons
    have r: "role m = ''user'' \<or> role m = ''assistant''" "CHR ''\<newline>'' \<notin> set (content m)"
      "role m' = ''user'' \<or> role m' = ''assistant''" "CHR ''\<newline>'' \<notin> set (content m')"
      and t: "transcript_ready h1" "transcript_ready h2'"
      by (simp_all add: transcript_ready_def)
    from transcript_line_inject[OF r e] have "m = m'"
      and "concat (chat_content h1) = concat (chat_content h2')" by blast+
    with Cons.IH[OF t] Cons show ?thesis by simp
  qed
qed

lemma map_of_write_file:
  "map_of (write_file filename stored dir) filename = Some (Inr stored)"
proof (cases "filename \<in> fst ` set dir")
  case True
  have "filename \<in> fst ` set d \<Longrightarrow>
        map_of (map (\<lambda>(n, c). if n = filename then (n, Inr stored) else (n, c)) d) filename
          = Some (Inr stored)" for d :: directory
    by (induction d) auto
  with True show ?thesis by (simp add: write_file_def)
next
  case False
  then have "map_of dir filename = None"
    by (simp add: map_of_eq_None_iff)
  with False show ?thesis by (simp add: write_file_def map_add_def)
qed

lemma universal_newlines_Cons:
  "CHR 0x0D \<noteq> c \<Longrightarrow> universal_newlines (c # cs) = c # universal_newlines cs"
  by (cases cs) auto

lemma universal_newlines_id:
  "CHR 0x0D \<notin> set t \<Longrightarrow> universal_newlines t = t"
  by (induction t) (simp_all add: universal_newlines_Cons)

lemma write_newlines_Cons:
  "write_newlines sep (c # t) = (if c = CHR 0x0A then sep else [c]) @ write_newlines sep t"
  by (simp add: write_newlines_def)

lemma read_back_crlf:
  "CHR 0x0D \<notin> set t \<Longrightarrow> universal_newlines (write_newlines [CHR 0x0D, CHR 0x0A] t) = t"
proof (induction t)
  case Nil
  then show ?case by (simp add: write_newlines_def)
next
  case (Cons c t)
  then show ?case
    by (cases "c = CHR 0x0A") (simp_all add: write_newlines_Cons universal_newlines_Cons)
qed

lemma read_back_lf:
  "CHR 0x0D \<notin> set t \<Longrightarrow> universal_newlines (write_newlines [CHR 0x0A] t) = t"
proof -
  have "write_newlines [CHR 0x0A] t = t"
    by (induction t) (simp_all add: write_newlines_def)
  then show "CHR 0x0D \<notin> set t \<Longrightarrow> universal_newlines (write_newlines [CHR 0x0A] t) = t"
    by (simp add: universal_newlines_id)
qed

lemma transcript_no_cr:
  "transcript_ready h \<Longrightarrow> CHR 0x0D \<notin> set (concat (chat_content h))"
  by (induction h) (auto simp: transcript_ready_def chat_content_def transcript_line_def)

lemma read_back:
  assumes "transcript_ready h" "sep = [CHR 0x0A] \<or> sep = [CHR 0x0D, CHR 0x0A]"
  shows "universal_newlines (write_newlines sep (concat (chat_content h)))
           = concat (chat_content h)"
  using assms read_back_lf[OF transcript_no_cr] read_back_crlf[OF transcript_no_cr] by auto

text \<open>
  Claim C6 as stated fails: a line break inside a message content is written as it is,
  so a history of two messages and a history of four are saved as the same text, and
  no reader of the file can give back both.
\<close>

theorem transcript_lines_collide:
  "history_with_line_break \<noteq> history_of_four
   \<and> concat (chat_content history_with_line_break) = concat (chat_content history_of_four)
   \<and> concat (chat_content history_of_four)
       = ''User: a\<newline>Assistant: b\<newline>User: c\<newline>Assistant: d\<newline>''"
  by (simp add: history_with_line_break_def history_of_four_def chat_content_def
      transcript_line_def create_message_def)

lemma save_writes_transcript:
  assumes "write_ok env"
  shows "snd (save_current_chat env self)"
    and "map_of (chats_dir (fst (save_current_chat env self)))
               (''chat_'' @ timestamp env @ ''.txt'')
          = Some (Inr (write_newlines (linesep env)
                         (concat (chat_content (conversation_history self)))))"
  using assms by (simp_all add: save_current_chat_def map_of_write_file)

lemma load_one_file:
  assumes "endswith filename ''.txt''"
  shows "past_chats_context (spanish_init [(filename, Inr stored)])
         = ''\<newline>Chat History '' @ filename @ '':\<newline>'' @ universal_newlines stored
           @ ''\<newline>---''"
  using assms by (simp add: spanish_init_def load_past_chats_def)

lemma read_back_inject:
  assumes "transcript_ready h1" "transcript_ready h2"
      and "sep = [CHR 0x0A] \<or> sep = [CHR 0x0D, CHR 0x0A]"
      and "universal_newlines (write_newlines sep (concat (chat_content h1)))
           = universal_newlines (write_newlines sep (concat (chat_content h2)))"
  shows "h1 = h2"
proof -
  have "concat (chat_content h1)
        = universal_newlines (write_newlines sep (concat (chat_content h1)))"
    by (rule read_back[OF assms(1,3), symmetric])
  also have "\<dots> = universal_newlines (write_newlines sep (concat (chat_content h2)))"
    by (rule assms(4))
  also have "\<dots> = concat (chat_content h2)"
    by (rule read_back[OF assms(2,3)])
  finally show ?thesis
    by (rule transcript_inject[OF assms(1,2)])
qed

text \<open>
  Claim C6, amended. \<^verbatim>\<open>save_current_chat\<close> writes, when the file can be written, one
  line \<^verbatim>\<open>User: <content>\<close> or \<^verbatim>\<open>Assistant: <content>\<close> per message into
  \<^verbatim>\<open>chat_<timestamp>.txt\<close>, every line feed as the line separator of the
  platform. \<^verbatim>\<open>load_past_chats\<close> does not read a file back into messages: it puts
  its text, carriage returns turned into line feeds, under a heading into
  \<^verbatim>\<open>past_chats_context\<close>. For histories whose roles are \<^verbatim>\<open>user\<close> or
  \<^verbatim>\<open>assistant\<close> and whose contents hold neither a line feed nor a carriage return,
  the text read back is the text that was saved, and it determines the list of
  messages.
\<close>

theorem transcript_determines_history:
  "(write_ok env \<longrightarrow>
      snd (save_current_chat env self)
      \<and> map_of (chats_dir (fst (save_current_chat env self))) (''chat_'' @ timestamp env @ ''.txt'')
          = Some (Inr (write_newlines (linesep env)
                         (concat (chat_content (conversation_history self))))))
   \<and> (endswith filename ''.txt'' \<longrightarrow>
       past_chats_context (spanish_init [(filename, Inr stored)])
         = ''\<newline>Chat History '' @ filename @ '':\<newline>'' @ universal_newlines stored
           @ ''\<newline>---'')
   \<and> (transcript_ready h1 \<and> (sep = [CHR 0x0A] \<or> sep = [CHR 0x0D, CHR 0x0A]) \<longrightarrow>
       universal_newlines (write_newlines sep (concat (chat_content h1)))
         = concat (chat_content h1))
   \<and> (transcript_ready h1 \<and> transcript_ready h2
       \<and> (sep = [CHR 0x0A] \<or> sep = [CHR 0x0D, CHR 0x0A])
       \<and> universal_newlines (write_newlines sep (concat (chat_content h1)))
           = universal_newlines (write_newlines sep (concat (chat_content h2)))
       \<longrightarrow> h1 = h2)"
  (is "?save \<and> ?load \<and> ?reread \<and> ?inject")
proof -
  have 1: ?save
  proof (rule impI)
    assume w: "write_ok env"
    from save_writes_transcript[OF w, of self] show
      "snd (save_current_chat env self)
       \<and> map_of (chats_dir (fst (save_current_chat env self)))
            (''chat_'' @ timestamp env @ ''.txt'')
          = Some (Inr (write_newlines (linesep env)
                         (concat (chat_content (conversation_history self)))))"
      by (rule conjI)
  qed
  have 2: ?load
    by (rule impI) (rule load_one_file)
  have 3: ?reread
  proof (rule impI)
    assume a: "transcript_ready h1 \<and> (sep = [CHR 0x0A] \<or> sep = [CHR 0x0D, CHR 0x0A])"
    show "universal_newlines (write_newlines sep (concat (chat_content h1)))
            = concat (chat_content h1)"
      by (rule read_back[OF conjunct1[OF a] conjunct2[OF a]])
  qed
  have 4: ?inject
  proof (rule impI)
    assume a: "transcript_ready h1 \<and> transcript_ready h2
       \<and> (sep = [CHR 0x0A] \<or> sep = [CHR 0x0D, CHR 0x0A])
       \<and> universal_newlines (write_newlines sep (concat (chat_content h1)))
           = universal_newlines (write_newlines sep (concat (chat_content h2)))"
    show "h1 = h2"
      by (rule read_back_inject[OF conjunct1[OF a] conjunct1[OF conjunct2[OF a]]
            conjunct1[OF conjunct2[OF conjunct2[OF a]]]
            conjunct2[OF conjunct2[OF conjunct2[OF a]]]])
  qed
  from 1 2 3 4 show ?thesis by (intro conjI)
qed

theorem transcript_determines_history_witness:
  "write_ok example_env
   \<and> transcript_ready history_of_four
   \<and> map_of (chats_dir (fst (save_current_chat example_env
                ((spanish_init [])\<lparr>conversation_history := history_of_four\<rparr>))))
        ''chat_20250220_101500.txt''
       = Some (Inr ''User: a\<newline>Assistant: b\<newline>User: c\<newline>Assistant: d\<newline>'')
   \<and> endswith ''chat_20250220_101500.txt'' ''.txt''
   \<and> past_chats_context (spanish_init [(''chat_20250220_101500.txt'', Inr crlf_transcript)])
       = ''\<newline>Chat History chat_20250220_101500.txt:\<newline>''
         @ ''User: a\<newline>Assistant: b\<newline>''
         @ ''\<newline>---''
   \<and> universal_newlines
         (write_newlines [CHR 0x0D, CHR 0x0A] (concat (chat_content history_of_four)))
       = ''User: a\<newline>Assistant: b\<newline>User: c\<newline>Assistant: d\<newline>''"
proof -
  let ?self = "(spanish_init [])\<lparr>conversation_history := history_of_four\<rparr>"
  note T = transcript_determines_history
        [of example_env ?self "''chat_20250220_101500.txt''" crlf_transcript
            history_of_four "[CHR 0x0D, CHR 0x0A]" history_of_four]
  have w: "write_ok example_env"
    by (simp add: example_env_def)
  have r: "transcript_ready history_of_four"
    by (simp add: transcript_ready_def history_of_four_def create_message_def)
  have c: "concat (chat_content history_of_four)
           = ''User: a\<newline>Assistant: b\<newline>User: c\<newline>Assistant: d\<newline>''"
    by (simp add: history_of_four_def chat_content_def transcript_line_def create_message_def)
  have e: "endswith ''chat_20250220_101500.txt'' ''.txt''"
    by (simp add: endswith_def)
  have u: "universal_newlines crlf_transcript = ''User: a\<newline>Assistant: b\<newline>''"
    by (simp add: crlf_transcript_def)
  have n: "''chat_'' @ timestamp example_env @ ''.txt'' = ''chat_20250220_101500.txt''"
    by (simp add: example_env_def)
  have l: "write_newlines (linesep example_env) (concat (chat_content (conversation_history ?self)))
           = ''User: a\<newline>Assistant: b\<newline>User: c\<newline>Assistant: d\<newline>''"
    by (simp add: c example_env_def write_newlines_def)
  from T w have "map_of (chats_dir (fst (save_current_chat example_env ?self)))
        (''chat_'' @ timestamp example_env @ ''.txt'')
       = Some (Inr (write_newlines (linesep example_env)
                      (concat (chat_content (conversation_history ?self)))))"
    by blast
  then have s: "map_of (chats_dir (fst (save_current_chat example_env ?self)))
        ''chat_20250220_101500.txt''
       = Some (Inr ''User: a\<newline>Assistant: b\<newline>User: c\<newline>Assistant: d\<newline>'')"
    unfolding n l .
  from T e have "past_chats_context (spanish_init [(''chat_20250220_101500.txt'', Inr crlf_transcript)])
       = ''\<newline>Chat History '' @ ''chat_20250220_101500.txt'' @ '':\<newline>''
         @ universal_newlines crlf_transcript @ ''\<newline>---''"
    by blast
  then have p: "past_chats_context (spanish_init [(''chat_20250220_101500.txt'', Inr crlf_transcript)])
       = ''\<newline>Chat History chat_20250220_101500.txt:\<newline>''
         @ ''User: a\<newline>Assistant: b\<newline>''
         @ ''\<newline>---''"
    unfolding u by simp
  from T r have "universal_newlines
         (write_newlines [CHR 0x0D, CHR 0x0A] (concat (chat_content history_of_four)))
       = concat (chat_content history_of_four)"
    by blast
  then have b: "universal_newlines
         (write_newlines [CHR 0x0D, CHR 0x0A] (concat (chat_content history_of_four)))
       = ''User: a\<newline>Assistant: b\<newline>User: c\<newline>Assistant: d\<newline>''"
    by (simp only: c)
  from w r s e p b show ?thesis by (intro conjI)
qed

end
